theory Spec2Isabelle
  imports Complex_Main
begin

section \<open>Voxel-wise combined p-value (calculate\_p\_for\_combined\_coefficient.py)\<close>

text \<open>
  A shallow embedding of \<^verbatim>\<open>compute_combined_pvalue\<close> and \<^verbatim>\<open>main\<close>.
  The program is numpy code over float64 arrays, so three things are made explicit:
  \<^item> a float64 value is a real number, one of the two infinities, or NaN; the rounding
    of every arithmetic result is a parameter of the model (\<open>rnd\<close>), so that what is
    proved holds for every rounding function and the properties of rounding a proof
    needs are visible as hypotheses;
  \<^item> arrays live in a store (a list of arrays, addressed by position): every numpy
    operation allocates its result, and the masked assignment of line 71 updates a cell
    in place;
  \<^item> exceptions are values of the type \<open>error\<close>; a run returns the exception that
    ended it together with the state it leaves.

  The arguments of \<^verbatim>\<open>compute_combined_pvalue\<close> are arrays of dtype float64, which is
  what \<^verbatim>\<open>load_nifti\<close> returns, and \<open>df\<close> is a Python integer of any size. numpy
  runs with its default error state (a floating-point exception is a warning, not an
  exception). The texts of the library's exceptions are abbreviated.
\<close>

subsection \<open>float64 values\<close>

text \<open>
  The sign of a zero is not modelled (\<open>-0.0\<close> and \<open>0.0\<close> are both \<open>Finite 0\<close>):
  the two differ only as divisors and in what is printed.
\<close>

datatype fl = Finite real | PInf | NInf | NaN

text \<open>
  The numeric environment: \<open>rnd\<close> rounds the exact result of an operation on finite
  operands to a float64 (which may overflow to an infinity); \<open>stdtr df x\<close> is what
  \<^verbatim>\<open>scipy.special.stdtr\<close>, the numeric core of \<^verbatim>\<open>scipy.stats.t.cdf\<close>, returns for a
  positive \<open>df\<close> and a finite \<open>x\<close>. Neither is code of the repository.
\<close>

record numerics =
  rnd :: "real \<Rightarrow> fl"
  stdtr :: "int \<Rightarrow> real \<Rightarrow> real"

fun fneg :: "fl \<Rightarrow> fl" where
  "fneg (Finite x) = Finite (- x)"
| "fneg PInf = NInf"
| "fneg NInf = PInf"
| "fneg NaN = NaN"

fun fabs :: "fl \<Rightarrow> fl" where
  "fabs (Finite x) = Finite \<bar>x\<bar>"
| "fabs PInf = PInf"
| "fabs NInf = PInf"
| "fabs NaN = NaN"

fun fadd :: "numerics \<Rightarrow> fl \<Rightarrow> fl \<Rightarrow> fl" where
  "fadd N NaN b = NaN"
| "fadd N a NaN = NaN"
| "fadd N PInf NInf = NaN"
| "fadd N NInf PInf = NaN"
| "fadd N PInf b = PInf"
| "fadd N a PInf = PInf"
| "fadd N NInf b = NInf"
| "fadd N a NInf = NInf"
| "fadd N (Finite x) (Finite y) = rnd N (x + y)"

fun fsub :: "numerics \<Rightarrow> fl \<Rightarrow> fl \<Rightarrow> fl" where
  "fsub N NaN b = NaN"
| "fsub N a NaN = NaN"
| "fsub N PInf PInf = NaN"
| "fsub N NInf NInf = NaN"
| "fsub N PInf b = PInf"
| "fsub N a NInf = PInf"
| "fsub N NInf b = NInf"
| "fsub N a PInf = NInf"
| "fsub N (Finite x) (Finite y) = rnd N (x - y)"

text \<open>The sign of an infinite product; an infinity times zero is NaN.\<close>

definition inf_signed :: "real \<Rightarrow> fl" where
  "inf_signed s = (if s = 0 then NaN else if 0 < s then PInf else NInf)"

fun fmul :: "numerics \<Rightarrow> fl \<Rightarrow> fl \<Rightarrow> fl" where
  "fmul N NaN b = NaN"
| "fmul N a NaN = NaN"
| "fmul N PInf PInf = PInf"
| "fmul N PInf NInf = NInf"
| "fmul N NInf PInf = NInf"
| "fmul N NInf NInf = PInf"
| "fmul N PInf (Finite y) = inf_signed y"
| "fmul N NInf (Finite y) = inf_signed (- y)"
| "fmul N (Finite x) PInf = inf_signed x"
| "fmul N (Finite x) NInf = inf_signed (- x)"
| "fmul N (Finite x) (Finite y) = rnd N (x * y)"

text \<open>
  Division. A finite number over an infinity is zero, an infinity over an infinity is
  NaN. Over a zero divisor numpy gives an infinity with the sign of the dividend, or NaN
  for \<open>0/0\<close>, and warns; it does not raise.
\<close>

fun fdiv :: "numerics \<Rightarrow> fl \<Rightarrow> fl \<Rightarrow> fl" where
  "fdiv N NaN b = NaN"
| "fdiv N a NaN = NaN"
| "fdiv N PInf (Finite y) = (if 0 \<le> y then PInf else NInf)"
| "fdiv N NInf (Finite y) = (if 0 \<le> y then NInf else PInf)"
| "fdiv N PInf b = NaN"
| "fdiv N NInf b = NaN"
| "fdiv N (Finite x) PInf = Finite 0"
| "fdiv N (Finite x) NInf = Finite 0"
| "fdiv N (Finite x) (Finite y) = (if y = 0 then inf_signed x else rnd N (x / y))"

fun fsqrt :: "numerics \<Rightarrow> fl \<Rightarrow> fl" where
  "fsqrt N NaN = NaN"
| "fsqrt N PInf = PInf"
| "fsqrt N NInf = NaN"
| "fsqrt N (Finite x) = (if x < 0 then NaN else rnd N (sqrt x))"

text \<open>Comparisons: every comparison with NaN is false.\<close>

fun fle :: "fl \<Rightarrow> fl \<Rightarrow> bool" where
  "fle NaN b = False"
| "fle a NaN = False"
| "fle NInf b = True"
| "fle a PInf = True"
| "fle PInf b = False"
| "fle a NInf = False"
| "fle (Finite x) (Finite y) = (x \<le> y)"

fun flt :: "fl \<Rightarrow> fl \<Rightarrow> bool" where
  "flt NaN b = False"
| "flt a NaN = False"
| "flt PInf b = False"
| "flt a NInf = False"
| "flt NInf b = True"
| "flt a PInf = True"
| "flt (Finite x) (Finite y) = (x < y)"

text \<open>\<^verbatim>\<open>np.isfinite\<close>: neither an infinity nor NaN.\<close>

fun is_finite :: "fl \<Rightarrow> bool" where
  "is_finite (Finite x) = True"
| "is_finite x = False"

text \<open>
  \<^verbatim>\<open>scipy.stats.t.cdf(x, df)\<close> at one element. The distribution wrapper returns NaN
  where the shape parameter is not positive or the argument is NaN, 1 at \<open>+inf\<close>
  and 0 at \<open>-inf\<close>, and calls the numeric core everywhere else. (What the wrapper
  does on a whole array is \<open>np_t_cdf\<close> below.)
\<close>

definition t_cdf :: "numerics \<Rightarrow> fl \<Rightarrow> int \<Rightarrow> fl" where
  "t_cdf N x df =
     (if df \<le> 0 then NaN
      else case x of
        NaN \<Rightarrow> NaN
      | PInf \<Rightarrow> Finite 1
      | NInf \<Rightarrow> Finite 0
      | Finite r \<Rightarrow> Finite (stdtr N df r))"

text \<open>The largest finite float64, \<^verbatim>\<open>np.finfo(np.float64).max\<close>.\<close>

definition float64_max :: real where
  "float64_max = (2 - 1 / 2 ^ 52) * 2 ^ 1023"

text \<open>
  \<^verbatim>\<open>np.nan_to_num(x, nan=v)\<close> at one element: NaN becomes \<open>v\<close>, and the infinities
  become the largest and the smallest finite float64 (the defaults of \<^verbatim>\<open>posinf\<close> and
  \<^verbatim>\<open>neginf\<close>).
\<close>

fun nan_to_num1 :: "fl \<Rightarrow> fl \<Rightarrow> fl" where
  "nan_to_num1 v NaN = v"
| "nan_to_num1 v PInf = Finite float64_max"
| "nan_to_num1 v NInf = Finite (- float64_max)"
| "nan_to_num1 v (Finite x) = Finite x"

subsection \<open>Arrays and the store\<close>

text \<open>
  An ndarray of dtype float64: its shape and its elements in C order. It is well formed
  when the number of elements is the product of the shape.
\<close>

record ndarray =
  shape :: "nat list"
  data :: "fl list"

definition wf_array :: "ndarray \<Rightarrow> bool" where
  "wf_array a = (length (data a) = prod_list (shape a))"

text \<open>
  The store holds the arrays of the process; a reference is a position in it, and a new
  array takes the next free position. \<open>Dangling\<close> is the model's own error for a
  position outside the store, which no Python reference is.
\<close>

type_synonym addr = nat
type_synonym store = "ndarray list"

datatype error =
    ValueError string
  | TypeError string
  | FileNotFoundError string
  | ImageFileError string
  | IndexError
  | Dangling addr

text \<open>
  A computation over a state \<open>'s\<close>: it returns a value or an exception, and the state
  it leaves in either case. The core runs on the store (\<open>'a M\<close>); the main program
  runs on the store and the file system.
\<close>

type_synonym ('s, 'a) prog = "'s \<Rightarrow> (error + 'a) \<times> 's"
type_synonym 'a M = "(store, 'a) prog"

definition ret :: "'a \<Rightarrow> ('s, 'a) prog" where
  "ret x = (\<lambda>h. (Inr x, h))"

definition raise :: "error \<Rightarrow> ('s, 'a) prog" where
  "raise e = (\<lambda>h. (Inl e, h))"

definition bnd :: "('s, 'a) prog \<Rightarrow> ('a \<Rightarrow> ('s, 'b) prog) \<Rightarrow> ('s, 'b) prog" where
  "bnd m f = (\<lambda>h. case m h of (Inl e, h') \<Rightarrow> (Inl e, h') | (Inr x, h') \<Rightarrow> f x h')"

definition alloc :: "ndarray \<Rightarrow> addr M" where
  "alloc a = (\<lambda>h. (Inr (length h), h @ [a]))"

definition deref :: "addr \<Rightarrow> ndarray M" where
  "deref p = (\<lambda>h. if p < length h then (Inr (h ! p), h) else (Inl (Dangling p), h))"

definition assign :: "addr \<Rightarrow> ndarray \<Rightarrow> unit M" where
  "assign p a = (\<lambda>h. if p < length h then (Inr (), h[p := a]) else (Inl (Dangling p), h))"

subsection \<open>The numpy operations the program uses\<close>

text \<open>
  A unary ufunc (\<^verbatim>\<open>np.sqrt\<close>, \<^verbatim>\<open>np.abs\<close>, a scalar operand): a new array. Where the
  result of a ufunc has no axis (shape \<open>[]\<close>) numpy returns a scalar
  (\<^verbatim>\<open>np.float64\<close>) and not an array; in arithmetic the two behave alike, and the one
  place of the program where they differ is the assignment of line 71.
\<close>

definition np_unary :: "(fl \<Rightarrow> fl) \<Rightarrow> addr \<Rightarrow> addr M" where
  "np_unary f p =
     bnd (deref p) (\<lambda>a. alloc \<lparr>shape = shape a, data = map f (data a)\<rparr>)"

text \<open>
  Broadcasting. Two shapes are aligned at their last axes; two aligned lengths are
  compatible when they are equal or one of them is 1, and an axis that one shape lacks
  counts as 1. \<open>broadcast_rev\<close> works on the reversed shapes.
\<close>

fun broadcast_rev :: "nat list \<Rightarrow> nat list \<Rightarrow> nat list option" where
  "broadcast_rev [] ys = Some ys"
| "broadcast_rev xs [] = Some xs"
| "broadcast_rev (x # xs) (y # ys) =
     (if x = y \<or> y = 1 then map_option ((#) x) (broadcast_rev xs ys)
      else if x = 1 then map_option ((#) y) (broadcast_rev xs ys)
      else None)"

definition broadcast_shapes :: "nat list \<Rightarrow> nat list \<Rightarrow> nat list option" where
  "broadcast_shapes s t = map_option rev (broadcast_rev (rev s) (rev t))"

text \<open>
  The elements of an array of shape \<open>s\<close>, repeated to the shape \<open>t\<close>.
  \<open>chunks n k xs\<close> cuts \<open>xs\<close> into its \<open>k\<close> sub-arrays of \<open>n\<close> elements;
  \<open>expand\<close> walks the axes of two shapes of one rank from the first: along an axis of
  equal lengths it expands each sub-array, along an axis of length 1 it repeats the
  expanded sub-array.
\<close>

primrec chunks :: "nat \<Rightarrow> nat \<Rightarrow> 'a list \<Rightarrow> 'a list list" where
  "chunks n 0 xs = []"
| "chunks n (Suc k) xs = take n xs # chunks n k (drop n xs)"

fun expand :: "nat list \<Rightarrow> nat list \<Rightarrow> 'a list \<Rightarrow> 'a list" where
  "expand (t # ts) (s # ss) xs =
     (if s = t then concat (map (expand ts ss) (chunks (prod_list ss) s xs))
      else concat (replicate t (expand ts ss xs)))"
| "expand ts ss xs = xs"

definition broadcast_data :: "nat list \<Rightarrow> nat list \<Rightarrow> 'a list \<Rightarrow> 'a list" where
  "broadcast_data t s xs = expand t (replicate (length t - length s) 1 @ s) xs"

text \<open>
  A binary ufunc on two arrays (\<^verbatim>\<open>+\<close>, \<^verbatim>\<open>/\<close>): a new array of the broadcast shape,
  or a \<^verbatim>\<open>ValueError\<close> when the shapes are not compatible.
\<close>

definition np_binary :: "(fl \<Rightarrow> fl \<Rightarrow> fl) \<Rightarrow> addr \<Rightarrow> addr \<Rightarrow> addr M" where
  "np_binary f p q =
     bnd (deref p) (\<lambda>a.
     bnd (deref q) (\<lambda>b.
       case broadcast_shapes (shape a) (shape b) of
         None \<Rightarrow> raise (ValueError ''operands could not be broadcast together'')
       | Some s \<Rightarrow>
           alloc \<lparr>shape = s,
                  data = map2 f (broadcast_data s (shape a) (data a))
                                (broadcast_data s (shape b) (data b))\<rparr>))"

text \<open>
  \<^verbatim>\<open>a <= c\<close> for a scalar \<open>c\<close>: a boolean array of the shape of \<open>a\<close>. Nothing ever
  writes to it, so it is a value here and not a cell of the store.
\<close>

definition np_less_equal :: "addr \<Rightarrow> fl \<Rightarrow> (nat list \<times> bool list) M" where
  "np_less_equal p c =
     bnd (deref p) (\<lambda>a. ret (shape a, map (\<lambda>x. fle x c) (data a)))"

text \<open>
  \<^verbatim>\<open>a[mask] = v\<close> for a boolean mask and a scalar \<open>v\<close>, where \<open>a\<close> is the result
  of a ufunc (in the program: \<open>var_sum\<close>). It writes \<open>v\<close> into the array at \<open>p\<close>,
  in place, wherever the mask is true. A result without axes is a numpy scalar, which
  has no item assignment: a \<^verbatim>\<open>TypeError\<close>. A mask of another shape is an
  \<^verbatim>\<open>IndexError\<close>.
\<close>

definition np_setitem_mask :: "addr \<Rightarrow> (nat list \<times> bool list) \<Rightarrow> fl \<Rightarrow> unit M" where
  "np_setitem_mask p msk v =
     bnd (deref p) (\<lambda>a.
       if shape a = []
       then raise (TypeError ''numpy.float64 object does not support item assignment'')
       else if fst msk = shape a
       then assign p (a\<lparr>data := map2 (\<lambda>m x. if m then v else x) (snd msk) (data a)\<rparr>)
       else raise IndexError)"

text \<open>
  \<^verbatim>\<open>t.cdf(x, df)\<close> on an array \<open>x\<close>. scipy converts \<open>df\<close> with \<^verbatim>\<open>asarray\<close>: a
  Python integer of \<open>2^64\<close> or more does not fit a machine integer and becomes an array
  of dtype object. The wrapper fills in NaN, 0 and 1 where \<open>t_cdf\<close> says so without the
  numeric core, and calls the core, on all the other elements at once, only if there is
  such an element: if \<open>df > 0\<close> and some element of \<open>x\<close> is finite. The core does not
  accept an argument of dtype object: a \<^verbatim>\<open>TypeError\<close>, for the whole array.
\<close>

definition np_t_cdf :: "numerics \<Rightarrow> addr \<Rightarrow> int \<Rightarrow> addr M" where
  "np_t_cdf N p df =
     bnd (deref p) (\<lambda>x.
       if 2 ^ 64 \<le> df \<and> list_ex is_finite (data x)
       then raise (TypeError ''ufunc stdtr not supported for the input types'')
       else alloc \<lparr>shape = shape x, data = map (\<lambda>v. t_cdf N v df) (data x)\<rparr>)"

subsection \<open>The core computation\<close>

text \<open>
  Lines 68 to 86, one numpy operation per line of the model, in the order Python
  evaluates them. Each intermediate array is bound to the name the source gives it.
\<close>

definition compute_combined_pvalue ::
  "numerics \<Rightarrow> addr \<Rightarrow> addr \<Rightarrow> addr \<Rightarrow> addr \<Rightarrow> addr \<Rightarrow> int \<Rightarrow> addr M" where
  "compute_combined_pvalue N beta1 beta2 var1 var2 cov12 df =
     bnd (np_binary (fadd N) var1 var2) (\<lambda>v12.
     bnd (np_unary (fmul N (Finite 2)) cov12) (\<lambda>c2.
     bnd (np_binary (fadd N) v12 c2) (\<lambda>var_sum.
     bnd (np_less_equal var_sum (Finite 0)) (\<lambda>nonpos.
     bnd (np_setitem_mask var_sum nonpos NaN) (\<lambda>_.
     bnd (np_unary (fsqrt N) var_sum) (\<lambda>se_sum.
     bnd (np_binary (fadd N) beta1 beta2) (\<lambda>beta_sum.
     bnd (np_binary (fdiv N) beta_sum se_sum) (\<lambda>t_stat.
     bnd (np_unary fabs t_stat) (\<lambda>abs_t.
     bnd (np_t_cdf N abs_t df) (\<lambda>cdf.
     bnd (np_unary (fsub N (Finite 1)) cdf) (\<lambda>tail.
     bnd (np_unary (fmul N (Finite 2)) tail) (\<lambda>p_value_with_nans.
     bnd (np_unary (nan_to_num1 (Finite 0)) p_value_with_nans) (\<lambda>p_value_no_nans.
     ret p_value_no_nans)))))))))))))"

subsection \<open>Files and the main program\<close>

text \<open>
  A NIfTI image, as far as the program looks at it: the data array that
  \<^verbatim>\<open>get_fdata()\<close> returns, and the affine and header, which the program only copies
  (a value of any type \<open>'g\<close>). The file system maps a path to the file stored there,
  which is an image nibabel can read or something else.
\<close>

record 'g nifti =
  img_data :: ndarray
  geometry :: 'g

datatype 'g disk_file = Image "'g nifti" | NotAnImage

type_synonym 'g filesystem = "string \<Rightarrow> 'g disk_file option"

text \<open>
  What the program takes from nibabel for writing, neither being code of the repository:
  \<open>known_extension path\<close>, whether \<^verbatim>\<open>nib.save\<close> accepts the extension of the
  path; and \<open>as_stored g a\<close>, the array that reading the written file gives back, which
  is \<open>a\<close> converted to the on-disk data type that the header \<open>g\<close> names (the
  header of the reference image is reused as it is).
\<close>

record 'g nibabel =
  known_extension :: "string \<Rightarrow> bool"
  as_stored :: "'g \<Rightarrow> ndarray \<Rightarrow> ndarray"

text \<open>The state of a run of the program: the store of the process and the file system.\<close>

record 'g world =
  heap :: store
  files :: "'g filesystem"

text \<open>A computation on the store, run in the world: the file system stays as it is.\<close>

definition on_store :: "'a M \<Rightarrow> ('g world, 'a) prog" where
  "on_store m = (\<lambda>w. case m (heap w) of (r, h') \<Rightarrow> (r, w\<lparr>heap := h'\<rparr>))"

text \<open>\<^verbatim>\<open>nib.load(path)\<close>: the image at \<open>path\<close>.\<close>

definition nib_load :: "string \<Rightarrow> ('g world, 'g nifti) prog" where
  "nib_load path =
     (\<lambda>w. case files w path of
        None \<Rightarrow> (Inl (FileNotFoundError path), w)
      | Some NotAnImage \<Rightarrow> (Inl (ImageFileError path), w)
      | Some (Image img) \<Rightarrow> (Inr img, w))"

text \<open>
  \<^verbatim>\<open>nib.save(img, path)\<close>: writes the image to \<open>path\<close>, or raises
  \<^verbatim>\<open>ImageFileError\<close> for an extension it does not know, writing nothing. The file
  system is a map from paths to files: a write that the operating system refuses (a
  missing directory, a full disk) is not modelled.
\<close>

definition nib_save :: "'g nibabel \<Rightarrow> 'g nifti \<Rightarrow> string \<Rightarrow> ('g world, unit) prog" where
  "nib_save L img path =
     (\<lambda>w. if known_extension L path
        then (Inr (),
              w\<lparr>files := (files w)(path \<mapsto>
                   Image \<lparr>img_data = as_stored L (geometry img) (img_data img),
                          geometry = geometry img\<rparr>)\<rparr>)
        else (Inl (ImageFileError path), w))"

text \<open>Line 30: the data array of the image at \<open>path\<close>, as a new array of the store.\<close>

definition load_nifti :: "string \<Rightarrow> ('g world, addr) prog" where
  "load_nifti path = bnd (nib_load path) (\<lambda>img. on_store (alloc (img_data img)))"

text \<open>
  Line 35: loads the reference image, builds an image of the array at \<open>p\<close> with the
  reference's affine and header, and writes it to \<open>output_path\<close>.
\<close>

definition save_nifti :: "'g nibabel \<Rightarrow> addr \<Rightarrow> string \<Rightarrow> string \<Rightarrow> ('g world, unit) prog" where
  "save_nifti L p output_path reference_path =
     bnd (nib_load reference_path) (\<lambda>ref_img.
     bnd (on_store (deref p)) (\<lambda>a.
     nib_save L \<lparr>img_data = a, geometry = geometry ref_img\<rparr> output_path))"

text \<open>The command line, once parsed (lines 113 to 130).\<close>

record args =
  beta4 :: string
  beta6 :: string
  var4 :: string
  var6 :: string
  cov46 :: string
  n_obs :: int
  n_predictors :: int
  output_file :: string \<comment> \<open>\<^verbatim>\<open>args.output\<close>\<close>

definition np_shape :: "addr \<Rightarrow> nat list M" where
  "np_shape p = bnd (deref p) (\<lambda>a. ret (shape a))"

text \<open>
  Lines 93 to 109, as a computation on the world. The chained comparison of line 103
  compares each shape with the next one.
\<close>

definition main_body :: "numerics \<Rightarrow> 'g nibabel \<Rightarrow> args \<Rightarrow> ('g world, unit) prog" where
  "main_body N L a =
     (let df = n_obs a - n_predictors a - 1 in
      bnd (load_nifti (beta4 a)) (\<lambda>beta_4.
      bnd (load_nifti (beta6 a)) (\<lambda>beta_6.
      bnd (load_nifti (var4 a)) (\<lambda>var_4.
      bnd (load_nifti (var6 a)) (\<lambda>var_6.
      bnd (load_nifti (cov46 a)) (\<lambda>cov_46.
      bnd (on_store (np_shape beta_4)) (\<lambda>s1.
      bnd (on_store (np_shape beta_6)) (\<lambda>s2.
      bnd (on_store (np_shape var_4)) (\<lambda>s3.
      bnd (on_store (np_shape var_6)) (\<lambda>s4.
      bnd (on_store (np_shape cov_46)) (\<lambda>s5.
        if \<not> (s1 = s2 \<and> s2 = s3 \<and> s3 = s4 \<and> s4 = s5)
        then raise (ValueError ''Input NIfTI files must have identical dimensions.'')
        else
          bnd (on_store (compute_combined_pvalue N beta_4 beta_6 var_4 var_6 cov_46 df)) (\<lambda>p_map.
          save_nifti L p_map (output_file a) (beta4 a)))))))))))))"

text \<open>
  A run of the program on the file system \<open>fs\<close>: the process starts with an empty
  store. The result is the exception that ended the run, if any, and the world the run
  leaves: the file system with everything the run wrote to it, whether it ended with
  an exception or not, and the store.
\<close>

definition main :: "numerics \<Rightarrow> 'g nibabel \<Rightarrow> args \<Rightarrow> 'g filesystem \<Rightarrow> (error + unit) \<times> 'g world" where
  "main N L a fs = main_body N L a \<lparr>heap = [], files = fs\<rparr>"

subsection \<open>What a caller observes\<close>

text \<open>
  \<open>call m h\<close> is what a caller of \<open>m\<close> in the store \<open>h\<close> gets: the exception, or
  the array behind the reference returned. \<open>item r i\<close> reads element \<open>i\<close> of that
  array in C order (\<^verbatim>\<open>r.flat[i]\<close>), and \<open>elt h p i\<close> element \<open>i\<close> of the array at
  \<open>p\<close>.
\<close>

definition call :: "addr M \<Rightarrow> store \<Rightarrow> error + ndarray" where
  "call m h = fst (bnd m deref h)"

definition item :: "error + ndarray \<Rightarrow> nat \<Rightarrow> error + fl" where
  "item r i =
     (case r of
        Inl e \<Rightarrow> Inl e
      | Inr a \<Rightarrow> if i < length (data a) then Inr (data a ! i) else Inl IndexError)"

definition elt :: "store \<Rightarrow> addr \<Rightarrow> nat \<Rightarrow> fl" where
  "elt h p i = data (h ! p) ! i"

text \<open>
  The precondition of the core (section 3 of the specification): the references are
  arrays of the store, well formed, and all of one shape.
\<close>

definition inputs_ok :: "store \<Rightarrow> addr list \<Rightarrow> bool" where
  "inputs_ok h ps =
     ((\<forall>p \<in> set ps. p < length h \<and> wf_array (h ! p)) \<and>
      (\<forall>p \<in> set ps. \<forall>q \<in> set ps. shape (h ! p) = shape (h ! q)))"

text \<open>\<^verbatim>\<open>-a\<close>: the array \<open>b\<close> is the elementwise negation of \<open>a\<close>.\<close>

definition negated :: "ndarray \<Rightarrow> ndarray \<Rightarrow> bool" where
  "negated a b = (shape b = shape a \<and> data b = map fneg (data a))"

subsection \<open>Properties of rounding\<close>

text \<open>
  What the proofs below need of the rounding function, each a property of IEEE 754
  round-to-nearest. \<open>rnd_exact N x\<close>: \<open>x\<close> is a float64 and rounds to itself.
  \<open>rnd_idem\<close>: a rounded result rounds to itself. \<open>rnd_odd\<close>: rounding commutes
  with negation. \<open>rnd_mono\<close>: rounding is monotone (and so never NaN).
  \<open>rnd_sqrt_pos\<close>: the square root of a positive float64 rounds to a positive
  float64 (it is too large to underflow). The rounding \<open>round64\<close> defined further
  down has all of them (lemma \<open>binary64_props\<close>).
\<close>

definition rnd_exact :: "numerics \<Rightarrow> real \<Rightarrow> bool" where
  "rnd_exact N x = (rnd N x = Finite x)"

definition rnd_idem :: "numerics \<Rightarrow> bool" where
  "rnd_idem N = (\<forall>x y. rnd N x = Finite y \<longrightarrow> rnd N y = Finite y)"

definition rnd_odd :: "numerics \<Rightarrow> bool" where
  "rnd_odd N = (\<forall>x. rnd N (- x) = fneg (rnd N x))"

definition rnd_mono :: "numerics \<Rightarrow> bool" where
  "rnd_mono N = (\<forall>x y. x \<le> y \<longrightarrow> fle (rnd N x) (rnd N y))"

definition rnd_sqrt_pos :: "numerics \<Rightarrow> bool" where
  "rnd_sqrt_pos N = (\<forall>x y. rnd N x = Finite y \<and> 0 < y \<longrightarrow> flt (Finite 0) (rnd N (sqrt y)))"

text \<open>
  A numeric environment to evaluate the model in: arithmetic without rounding error, and
  the distribution function of Student's t with one degree of freedom (the Cauchy
  distribution), \<open>1/2 + arctan x / pi\<close>. It is used at \<open>df = 1\<close>, and where the
  value of \<open>stdtr\<close> plays no part.
\<close>

definition exact_numerics :: numerics where
  "exact_numerics = \<lparr>rnd = Finite, stdtr = (\<lambda>df x. 1 / 2 + arctan x / pi)\<rparr>"

text \<open>An array of one axis, \<^verbatim>\<open>np.array(xs)\<close>.\<close>

definition arr1 :: "fl list \<Rightarrow> ndarray" where
  "arr1 xs = \<lparr>shape = [length xs], data = xs\<rparr>"

subsection \<open>IEEE 754 binary64 rounding\<close>

text \<open>
  The rounding numpy's float64 arithmetic performs: to the nearest float64, a tie to the
  one with an even significand. \<open>round_even\<close> rounds a real to the nearest integer,
  ties to even. \<open>binade x\<close> is the exponent of \<open>x\<close>, not below \<open>-1022\<close> (below, the
  numbers are subnormal and share the spacing \<open>2^-1074\<close>); \<open>ulp x\<close> is the spacing of
  the float64 grid around \<open>x\<close>, 52 binary places below the exponent. \<open>nearest64\<close> rounds
  on that grid with the exponent unbounded above, and \<open>round64\<close> overflows to an infinity
  where the rounded value exceeds the largest finite float64.
\<close>

definition round_even :: "real \<Rightarrow> int" where
  "round_even m =
     (if m - of_int \<lfloor>m\<rfloor> < 1 / 2 then \<lfloor>m\<rfloor>
      else if 1 / 2 < m - of_int \<lfloor>m\<rfloor> then \<lfloor>m\<rfloor> + 1
      else if even \<lfloor>m\<rfloor> then \<lfloor>m\<rfloor> else \<lfloor>m\<rfloor> + 1)"

definition binade :: "real \<Rightarrow> int" where
  "binade x = max \<lfloor>log 2 \<bar>x\<bar>\<rfloor> (- 1022)"

definition ulp :: "real \<Rightarrow> real" where
  "ulp x = 2 powr real_of_int (binade x - 52)"

definition nearest64 :: "real \<Rightarrow> real" where
  "nearest64 x = of_int (round_even (x / ulp x)) * ulp x"

definition round64 :: "real \<Rightarrow> fl" where
  "round64 x =
     (if float64_max < nearest64 x then PInf
      else if nearest64 x < - float64_max then NInf
      else Finite (nearest64 x))"

text \<open>float64 arithmetic around any numeric core of the distribution function.\<close>

definition binary64_numerics :: "(int \<Rightarrow> real \<Rightarrow> real) \<Rightarrow> numerics" where
  "binary64_numerics core = \<lparr>rnd = round64, stdtr = core\<rparr>"

subsection \<open>The computation at one voxel\<close>

text \<open>
  Line 71 at one element, and lines 68 to 82 read at one index: what the vectorised
  operations do to the five input values of a voxel (\<open>voxel_abs_t\<close> up to line 78's
  \<^verbatim>\<open>np.abs(t_stat)\<close>, \<open>voxel_p\<close> to the end). They serve the proofs; the theorems
  about the program are stated on \<open>compute_combined_pvalue\<close>.
\<close>

definition guard_nonpos :: "fl \<Rightarrow> fl" where
  "guard_nonpos x = (if fle x (Finite 0) then NaN else x)"

definition voxel_abs_t :: "numerics \<Rightarrow> fl \<Rightarrow> fl \<Rightarrow> fl \<Rightarrow> fl \<Rightarrow> fl \<Rightarrow> fl" where
  "voxel_abs_t N b1 b2 v1 v2 c =
     (let var_sum = guard_nonpos (fadd N (fadd N v1 v2) (fmul N (Finite 2) c));
          se_sum = fsqrt N var_sum;
          beta_sum = fadd N b1 b2;
          t_stat = fdiv N beta_sum se_sum
      in fabs t_stat)"

definition voxel_p :: "numerics \<Rightarrow> int \<Rightarrow> fl \<Rightarrow> fl \<Rightarrow> fl \<Rightarrow> fl \<Rightarrow> fl \<Rightarrow> fl" where
  "voxel_p N df b1 b2 v1 v2 c =
     nan_to_num1 (Finite 0)
       (fmul N (Finite 2) (fsub N (Finite 1) (t_cdf N (voxel_abs_t N b1 b2 v1 v2 c) df)))"

text \<open>
  \<open>preserves n m Q\<close>: run in a store of at least \<open>n\<close> cells, \<open>m\<close> leaves the
  first \<open>n\<close> cells as they are, whether it returns or raises, and a value it returns
  satisfies \<open>Q\<close>.
\<close>

definition preserves :: "nat \<Rightarrow> 'a M \<Rightarrow> ('a \<Rightarrow> bool) \<Rightarrow> bool" where
  "preserves n m Q =
     (\<forall>h. n \<le> length h \<longrightarrow>
        (case m h of (r, h') \<Rightarrow>
           n \<le> length h' \<and> take n h' = take n h \<and>
           (case r of Inl e \<Rightarrow> True | Inr x \<Rightarrow> Q x)))"

text \<open>
  The three-voxel scenario of section 8 of the specification: voxel 0 is valid, voxel 1
  has a non-positive combined variance, and the two coefficients of voxel 2 sum to zero.
  The five arrays are \<open>beta1\<close>, \<open>beta2\<close>, \<open>var1\<close>, \<open>var2\<close> and \<open>cov12\<close>, in
  this order.
\<close>

definition three_voxels :: store where
  "three_voxels =
     [arr1 [Finite 1, Finite (1/2), Finite 1],
      arr1 [Finite 1, Finite (3/10), Finite (- 1)],
      arr1 [Finite 1, Finite (- 1/100), Finite 1],
      arr1 [Finite 1, Finite 0, Finite 1],
      arr1 [Finite 1, Finite 0, Finite 1]]"

text \<open>\<open>rnd_not_nan\<close>: rounding a real number never gives NaN.\<close>

definition rnd_not_nan :: "numerics \<Rightarrow> bool" where
  "rnd_not_nan N = (\<forall>x. rnd N x \<noteq> NaN)"


subsection \<open>Example inputs\<close>

text \<open>
  Stores of five arrays, in the order \<open>beta1\<close>, \<open>beta2\<close>, \<open>var1\<close>, \<open>var2\<close>,
  \<open>cov12\<close>, on which the theorems are evaluated. \<open>three_voxels_negated\<close> is
  \<open>three_voxels\<close> with the two coefficient maps negated; \<open>three_voxels_other\<close>
  agrees with \<open>three_voxels\<close> at voxel 0 and nowhere else; the covariance of
  \<open>independent_voxels\<close> is zero everywhere; \<open>infinite_voxel\<close> holds an infinite
  coefficient and an infinite variance, which a float64 array can.
\<close>

definition three_voxels_negated :: store where
  "three_voxels_negated =
     [arr1 [Finite (- 1), Finite (- 1/2), Finite (- 1)],
      arr1 [Finite (- 1), Finite (- 3/10), Finite 1],
      arr1 [Finite 1, Finite (- 1/100), Finite 1],
      arr1 [Finite 1, Finite 0, Finite 1],
      arr1 [Finite 1, Finite 0, Finite 1]]"

definition three_voxels_other :: store where
  "three_voxels_other =
     [arr1 [Finite 1, Finite 5, Finite 7],
      arr1 [Finite 1, Finite 2, Finite 3],
      arr1 [Finite 1, Finite 4, Finite 9],
      arr1 [Finite 1, Finite 1, Finite 1],
      arr1 [Finite 1, Finite 0, Finite 2]]"

definition independent_voxels :: store where
  "independent_voxels =
     [arr1 [Finite 1, Finite 1],
      arr1 [Finite 1, Finite (- 1)],
      arr1 [Finite 1, Finite 3],
      arr1 [Finite 3, Finite 1],
      arr1 [Finite 0, Finite 0]]"

definition infinite_voxel :: store where
  "infinite_voxel = [arr1 [PInf], arr1 [Finite 0], arr1 [PInf], arr1 [Finite 0], arr1 [Finite 0]]"


text \<open>
  A second numeric environment: a rounding that sends the real numbers beyond the float64
  range to the infinities and leaves the others as they are. On \<open>largest_voxel\<close>,
  whose coefficients and variances are the largest finite float64, it computes what
  float64 arithmetic computes: the sums overflow.
\<close>

definition overflowing_numerics :: numerics where
  "overflowing_numerics =
     \<lparr>rnd = (\<lambda>x. if float64_max < x then PInf else if x < - float64_max then NInf else Finite x),
      stdtr = (\<lambda>df x. 1 / 2 + arctan x / pi)\<rparr>"

definition largest_voxel :: store where
  "largest_voxel =
     [arr1 [Finite float64_max], arr1 [Finite float64_max], arr1 [Finite float64_max],
      arr1 [Finite float64_max], arr1 [Finite 0]]"

text \<open>
  A command line and two file systems for it: in \<open>example_files\<close> the five images hold
  the arrays of \<open>three_voxels\<close>; in \<open>mismatched_files\<close> the covariance image has
  two voxels instead of three.
\<close>

definition example_args :: args where
  "example_args =
     \<lparr>beta4 = ''beta4.nii'', beta6 = ''beta6.nii'', var4 = ''var4.nii'', var6 = ''var6.nii'',
      cov46 = ''cov46.nii'', n_obs = 9, n_predictors = 7, output_file = ''p.nii''\<rparr>"

definition example_files :: "nat filesystem" where
  "example_files =
     [''beta4.nii'' \<mapsto> Image \<lparr>img_data = three_voxels ! 0, geometry = 0\<rparr>,
      ''beta6.nii'' \<mapsto> Image \<lparr>img_data = three_voxels ! 1, geometry = 0\<rparr>,
      ''var4.nii'' \<mapsto> Image \<lparr>img_data = three_voxels ! 2, geometry = 0\<rparr>,
      ''var6.nii'' \<mapsto> Image \<lparr>img_data = three_voxels ! 3, geometry = 0\<rparr>,
      ''cov46.nii'' \<mapsto> Image \<lparr>img_data = three_voxels ! 4, geometry = 0\<rparr>]"

definition mismatched_files :: "nat filesystem" where
  "mismatched_files =
     example_files(''cov46.nii'' \<mapsto>
       Image \<lparr>img_data = arr1 [Finite 0, Finite 0], geometry = 0\<rparr>)"

text \<open>
  A nibabel that knows the extension \<^verbatim>\<open>.nii\<close> and nothing else and stores float64
  arrays as they are, to evaluate \<open>main\<close> with.
\<close>

definition example_nibabel :: "nat nibabel" where
  "example_nibabel =
     \<lparr>known_extension = (\<lambda>path. drop (length path - 4) path = ''.nii''),
      as_stored = (\<lambda>g a. a)\<rparr>"

text \<open>
  Two more stores. \<open>degenerate_voxels\<close> agrees with \<open>three_voxels\<close> at voxel 1, and
  the combined variance of every one of its voxels is not positive. The arrays of
  \<open>no_axes\<close> have no axis (\<^verbatim>\<open>np.array(1.0)\<close>).
\<close>

definition degenerate_voxels :: store where
  "degenerate_voxels =
     [arr1 [Finite 0, Finite (1/2), Finite 0],
      arr1 [Finite 0, Finite (3/10), Finite 0],
      arr1 [Finite 0, Finite (- 1/100), Finite 0],
      arr1 [Finite 0, Finite 0, Finite 0],
      arr1 [Finite 0, Finite 0, Finite 0]]"

text \<open>
  \<open>tie_voxel\<close>: one voxel whose coefficients sum to zero and whose combined variance
  is \<open>1 + 2^-53 - 1\<close>; the three numbers are float64 numbers.
\<close>

definition tie_voxel :: store where
  "tie_voxel =
     [arr1 [Finite 1], arr1 [Finite (- 1)], arr1 [Finite 1], arr1 [Finite (1 / 2 ^ 53)],
      arr1 [Finite (- 1 / 2)]]"

definition arr0 :: "fl \<Rightarrow> ndarray" where
  "arr0 x = \<lparr>shape = [], data = [x]\<rparr>"

definition no_axes :: store where
  "no_axes = [arr0 (Finite 1), arr0 (Finite 1), arr0 (Finite 1), arr0 (Finite 1), arr0 (Finite 1)]"

section \<open>Running the operations\<close>

lemma bnd_Inr: "m h = (Inr x, h') \<Longrightarrow> bnd m f h = f x h'"
  by (simp add: bnd_def)

lemma bnd_Inl: "m h = (Inl e, h') \<Longrightarrow> bnd m f h = (Inl e, h')"
  by (simp add: bnd_def)

lemma np_unary_run:
  "p < length h \<Longrightarrow>
   np_unary f p h = (Inr (length h), h @ [\<lparr>shape = shape (h ! p), data = map f (data (h ! p))\<rparr>])"
  by (simp add: np_unary_def bnd_def deref_def alloc_def)

subsection \<open>Broadcasting two arrays of one shape\<close>

lemma broadcast_rev_same: "broadcast_rev xs xs = Some xs"
  by (induction xs) simp_all

lemma broadcast_shapes_same: "broadcast_shapes s s = Some s"
  by (simp add: broadcast_shapes_def broadcast_rev_same)

lemma concat_chunks: "length xs = k * n \<Longrightarrow> concat (chunks n k xs) = xs"
  by (induction k arbitrary: xs) simp_all

lemma chunk_length: "length xs = k * n \<Longrightarrow> c \<in> set (chunks n k xs) \<Longrightarrow> length c = n"
proof (induction k arbitrary: xs)
  case 0
  then show ?case by simp
next
  case (Suc k)
  from Suc.prems(2) have "c = take n xs \<or> c \<in> set (chunks n k (drop n xs))" by simp
  then show ?case
  proof
    assume "c = take n xs"
    with Suc.prems(1) show ?thesis by simp
  next
    assume c: "c \<in> set (chunks n k (drop n xs))"
    have "length (drop n xs) = k * n" using Suc.prems(1) by simp
    from Suc.IH[OF this c] show ?thesis .
  qed
qed

lemma expand_same: "length xs = prod_list s \<Longrightarrow> expand s s xs = xs"
proof (induction s arbitrary: xs)
  case Nil
  then show ?case by simp
next
  case (Cons a s)
  have len: "length xs = a * prod_list s" using Cons.prems by simp
  have "map (expand s s) (chunks (prod_list s) a xs) = chunks (prod_list s) a xs"
    using chunk_length[OF len] Cons.IH by (simp add: map_idI)
  then show ?case using concat_chunks[OF len] by simp
qed

lemma broadcast_data_same: "length xs = prod_list s \<Longrightarrow> broadcast_data s s xs = xs"
  by (simp add: broadcast_data_def expand_same)

lemma np_binary_run:
  "p < length h \<Longrightarrow> q < length h \<Longrightarrow> shape (h ! q) = shape (h ! p) \<Longrightarrow>
   np_binary f p q h =
     (Inr (length h),
      h @ [\<lparr>shape = shape (h ! p),
            data = map2 f (broadcast_data (shape (h ! p)) (shape (h ! p)) (data (h ! p)))
                          (broadcast_data (shape (h ! p)) (shape (h ! p)) (data (h ! q)))\<rparr>])"
  by (simp add: np_binary_def bnd_def deref_def alloc_def broadcast_shapes_same)

subsection \<open>The run of the core\<close>

lemma np_less_equal_run:
  "p < length h \<Longrightarrow>
   np_less_equal p c h = (Inr (shape (h ! p), map (\<lambda>x. fle x c) (data (h ! p))), h)"
  by (simp add: np_less_equal_def bnd_def deref_def ret_def)

lemma np_setitem_mask_run:
  "p < length h \<Longrightarrow> fst msk = shape (h ! p) \<Longrightarrow>
   np_setitem_mask p msk v h =
     (if shape (h ! p) = []
      then (Inl (TypeError ''numpy.float64 object does not support item assignment''), h)
      else (Inr (), h[p := (h ! p)\<lparr>data := map2 (\<lambda>m x. if m then v else x) (snd msk) (data (h ! p))\<rparr>]))"
  by (simp add: np_setitem_mask_def bnd_def deref_def assign_def raise_def)

lemma guard_map2:
  "map2 (\<lambda>m x. if m then NaN else x) (map (\<lambda>x. fle x (Finite 0)) xs) xs = map guard_nonpos xs"
  by (induction xs) (simp_all add: guard_nonpos_def)

text \<open>
  Lines 70 and 71 together: the comparison, then the masked write, which raises when
  the array has no axis.
\<close>

lemma guard_run:
  "p < length h \<Longrightarrow>
   bnd (np_less_equal p (Finite 0)) (\<lambda>m. bnd (np_setitem_mask p m NaN) f) h =
     (if shape (h ! p) = []
      then (Inl (TypeError ''numpy.float64 object does not support item assignment''), h)
      else f () (h[p := (h ! p)\<lparr>data := map guard_nonpos (data (h ! p))\<rparr>]))"
  by (simp add: bnd_Inr bnd_Inl np_less_equal_run np_setitem_mask_run guard_map2)

text \<open>Line 78's \<^verbatim>\<open>t.cdf\<close>: it raises when \<open>df\<close> is too large and an element is finite.\<close>

lemma t_cdf_run:
  "p < length h \<Longrightarrow>
   bnd (np_t_cdf N p df) f h =
     (if 2 ^ 64 \<le> df \<and> list_ex is_finite (data (h ! p))
      then (Inl (TypeError ''ufunc stdtr not supported for the input types''), h)
      else f (length h)
             (h @ [\<lparr>shape = shape (h ! p), data = map (\<lambda>v. t_cdf N v df) (data (h ! p))\<rparr>]))"
  by (simp add: np_t_cdf_def bnd_def deref_def alloc_def raise_def)

text \<open>
  The run of the core on five arrays of one shape. On arrays without axes it raises at
  line 71, having allocated the three arrays of line 68. Otherwise it raises at line 78
  when \<open>df\<close> is \<open>2^64\<close> or more and some t statistic is finite, having allocated
  seven arrays; and otherwise it returns the last of the eleven arrays it allocates.
\<close>

lemma compute_run_same_shape:
  assumes "beta1 < length h" "beta2 < length h" "var1 < length h" "var2 < length h" "cov12 < length h"
    and "shape (h ! beta2) = shape (h ! beta1)" "shape (h ! var1) = shape (h ! beta1)"
        "shape (h ! var2) = shape (h ! beta1)" "shape (h ! cov12) = shape (h ! beta1)"
  shows "compute_combined_pvalue N beta1 beta2 var1 var2 cov12 df h =
     (let s = shape (h ! beta1);
          bc = broadcast_data s s;
          v12 = map2 (fadd N) (bc (data (h ! var1))) (bc (data (h ! var2)));
          c2 = map (fmul N (Finite 2)) (data (h ! cov12));
          sum = map2 (fadd N) (bc v12) (bc c2);
          var_sum = map guard_nonpos sum;
          se_sum = map (fsqrt N) var_sum;
          beta_sum = map2 (fadd N) (bc (data (h ! beta1))) (bc (data (h ! beta2)));
          t_stat = map2 (fdiv N) (bc beta_sum) (bc se_sum);
          abs_t = map fabs t_stat;
          cdf = map (\<lambda>x. t_cdf N x df) abs_t;
          tail = map (fsub N (Finite 1)) cdf;
          p_value_with_nans = map (fmul N (Finite 2)) tail;
          p_value_no_nans = map (nan_to_num1 (Finite 0)) p_value_with_nans
      in if s = []
         then (Inl (TypeError ''numpy.float64 object does not support item assignment''),
               h @ map (\<lambda>d. \<lparr>shape = s, data = d\<rparr>) [v12, c2, sum])
         else if 2 ^ 64 \<le> df \<and> list_ex is_finite abs_t
         then (Inl (TypeError ''ufunc stdtr not supported for the input types''),
               h @ map (\<lambda>d. \<lparr>shape = s, data = d\<rparr>)
                     [v12, c2, var_sum, se_sum, beta_sum, t_stat, abs_t])
         else (Inr (length h + 10),
               h @ map (\<lambda>d. \<lparr>shape = s, data = d\<rparr>)
                     [v12, c2, var_sum, se_sum, beta_sum, t_stat, abs_t, cdf, tail,
                      p_value_with_nans, p_value_no_nans]))"
  using assms
  by (simp add: compute_combined_pvalue_def bnd_Inr np_unary_run np_binary_run guard_run t_cdf_run
      nth_append ret_def list_update_append Let_def)

text \<open>On well-formed arrays of one shape nothing is repeated.\<close>

lemma compute_run:
  assumes "beta1 < length h" "beta2 < length h" "var1 < length h" "var2 < length h" "cov12 < length h"
    and "shape (h ! beta2) = shape (h ! beta1)" "shape (h ! var1) = shape (h ! beta1)"
        "shape (h ! var2) = shape (h ! beta1)" "shape (h ! cov12) = shape (h ! beta1)"
    and "length (data (h ! beta1)) = prod_list (shape (h ! beta1))"
        "length (data (h ! beta2)) = prod_list (shape (h ! beta1))"
        "length (data (h ! var1)) = prod_list (shape (h ! beta1))"
        "length (data (h ! var2)) = prod_list (shape (h ! beta1))"
        "length (data (h ! cov12)) = prod_list (shape (h ! beta1))"
  shows "compute_combined_pvalue N beta1 beta2 var1 var2 cov12 df h =
     (let s = shape (h ! beta1);
          v12 = map2 (fadd N) (data (h ! var1)) (data (h ! var2));
          c2 = map (fmul N (Finite 2)) (data (h ! cov12));
          sum = map2 (fadd N) v12 c2;
          var_sum = map guard_nonpos sum;
          se_sum = map (fsqrt N) var_sum;
          beta_sum = map2 (fadd N) (data (h ! beta1)) (data (h ! beta2));
          t_stat = map2 (fdiv N) beta_sum se_sum;
          abs_t = map fabs t_stat;
          cdf = map (\<lambda>x. t_cdf N x df) abs_t;
          tail = map (fsub N (Finite 1)) cdf;
          p_value_with_nans = map (fmul N (Finite 2)) tail;
          p_value_no_nans = map (nan_to_num1 (Finite 0)) p_value_with_nans
      in if s = []
         then (Inl (TypeError ''numpy.float64 object does not support item assignment''),
               h @ map (\<lambda>d. \<lparr>shape = s, data = d\<rparr>) [v12, c2, sum])
         else if 2 ^ 64 \<le> df \<and> list_ex is_finite abs_t
         then (Inl (TypeError ''ufunc stdtr not supported for the input types''),
               h @ map (\<lambda>d. \<lparr>shape = s, data = d\<rparr>)
                     [v12, c2, var_sum, se_sum, beta_sum, t_stat, abs_t])
         else (Inr (length h + 10),
               h @ map (\<lambda>d. \<lparr>shape = s, data = d\<rparr>)
                     [v12, c2, var_sum, se_sum, beta_sum, t_stat, abs_t, cdf, tail,
                      p_value_with_nans, p_value_no_nans]))"
proof -
  let ?s = "shape (h ! beta1)"
  have bc: "broadcast_data ?s ?s xs = xs" if "length xs = prod_list ?s" for xs :: "fl list"
    using that by (rule broadcast_data_same)
  have 1: "broadcast_data ?s ?s (data (h ! beta1)) = data (h ! beta1)"
    "broadcast_data ?s ?s (data (h ! beta2)) = data (h ! beta2)"
    "broadcast_data ?s ?s (data (h ! var1)) = data (h ! var1)"
    "broadcast_data ?s ?s (data (h ! var2)) = data (h ! var2)"
    by (rule bc, rule assms)+
  have 2: "broadcast_data ?s ?s (map2 (fadd N) (data (h ! var1)) (data (h ! var2))) =
      map2 (fadd N) (data (h ! var1)) (data (h ! var2))"
    "broadcast_data ?s ?s (map (fmul N (Finite 2)) (data (h ! cov12))) =
      map (fmul N (Finite 2)) (data (h ! cov12))"
    "broadcast_data ?s ?s (map2 (fadd N) (data (h ! beta1)) (data (h ! beta2))) =
      map2 (fadd N) (data (h ! beta1)) (data (h ! beta2))"
    using assms(10-14) by (simp_all add: bc)
  have 3: "broadcast_data ?s ?s (map (fsqrt N) (map guard_nonpos
      (map2 (fadd N) (map2 (fadd N) (data (h ! var1)) (data (h ! var2)))
         (map (fmul N (Finite 2)) (data (h ! cov12)))))) =
      map (fsqrt N) (map guard_nonpos
      (map2 (fadd N) (map2 (fadd N) (data (h ! var1)) (data (h ! var2)))
         (map (fmul N (Finite 2)) (data (h ! cov12)))))"
    using assms(10-14) by (simp add: bc del: map_map)
  show ?thesis
    unfolding compute_run_same_shape[OF assms(1-9)] Let_def 1 2 3 ..
qed

lemma inputs_okD:
  assumes ok: "inputs_ok h [beta1, beta2, var1, var2, cov12]"
  shows "beta1 < length h" "beta2 < length h" "var1 < length h" "var2 < length h" "cov12 < length h"
    "shape (h ! beta2) = shape (h ! beta1)" "shape (h ! var1) = shape (h ! beta1)"
    "shape (h ! var2) = shape (h ! beta1)" "shape (h ! cov12) = shape (h ! beta1)"
    "length (data (h ! beta2)) = length (data (h ! beta1))"
    "length (data (h ! var1)) = length (data (h ! beta1))"
    "length (data (h ! var2)) = length (data (h ! beta1))"
    "length (data (h ! cov12)) = length (data (h ! beta1))"
    "length (data (h ! beta1)) = prod_list (shape (h ! beta1))"
    "length (data (h ! beta2)) = prod_list (shape (h ! beta1))"
    "length (data (h ! var1)) = prod_list (shape (h ! beta1))"
    "length (data (h ! var2)) = prod_list (shape (h ! beta1))"
    "length (data (h ! cov12)) = prod_list (shape (h ! beta1))"
proof -
  let ?ps = "[beta1, beta2, var1, var2, cov12]"
  have A: "p < length h \<and> length (data (h ! p)) = prod_list (shape (h ! p))" if "p \<in> set ?ps" for p
    using ok that unfolding inputs_ok_def wf_array_def by blast
  have B: "shape (h ! p) = shape (h ! beta1)" if "p \<in> set ?ps" for p
  proof -
    have "beta1 \<in> set ?ps" by simp
    with ok that show ?thesis unfolding inputs_ok_def by blast
  qed
  have C: "length (data (h ! p)) = length (data (h ! beta1))" if "p \<in> set ?ps" for p
  proof -
    have "beta1 \<in> set ?ps" by simp
    from A[OF that] A[OF this] B[OF that] show ?thesis by simp
  qed
  show "beta1 < length h" "beta2 < length h" "var1 < length h" "var2 < length h" "cov12 < length h"
    using A[of beta1] A[of beta2] A[of var1] A[of var2] A[of cov12] by simp_all
  show "shape (h ! beta2) = shape (h ! beta1)" "shape (h ! var1) = shape (h ! beta1)"
    "shape (h ! var2) = shape (h ! beta1)" "shape (h ! cov12) = shape (h ! beta1)"
    by (rule B, simp)+
  show "length (data (h ! beta2)) = length (data (h ! beta1))"
    "length (data (h ! var1)) = length (data (h ! beta1))"
    "length (data (h ! var2)) = length (data (h ! beta1))"
    "length (data (h ! cov12)) = length (data (h ! beta1))"
    by (rule C, simp)+
  have D: "length (data (h ! p)) = prod_list (shape (h ! beta1))" if "p \<in> set ?ps" for p
    using A[OF that] B[OF that] by simp
  show "length (data (h ! beta1)) = prod_list (shape (h ! beta1))"
    "length (data (h ! beta2)) = prod_list (shape (h ! beta1))"
    "length (data (h ! var1)) = prod_list (shape (h ! beta1))"
    "length (data (h ! var2)) = prod_list (shape (h ! beta1))"
    "length (data (h ! cov12)) = prod_list (shape (h ! beta1))"
    by (rule D, simp)+
qed

lemma compute_run_ok:
  assumes ok: "inputs_ok h [beta1, beta2, var1, var2, cov12]"
  shows "compute_combined_pvalue N beta1 beta2 var1 var2 cov12 df h =
     (let s = shape (h ! beta1);
          v12 = map2 (fadd N) (data (h ! var1)) (data (h ! var2));
          c2 = map (fmul N (Finite 2)) (data (h ! cov12));
          sum = map2 (fadd N) v12 c2;
          var_sum = map guard_nonpos sum;
          se_sum = map (fsqrt N) var_sum;
          beta_sum = map2 (fadd N) (data (h ! beta1)) (data (h ! beta2));
          t_stat = map2 (fdiv N) beta_sum se_sum;
          abs_t = map fabs t_stat;
          cdf = map (\<lambda>x. t_cdf N x df) abs_t;
          tail = map (fsub N (Finite 1)) cdf;
          p_value_with_nans = map (fmul N (Finite 2)) tail;
          p_value_no_nans = map (nan_to_num1 (Finite 0)) p_value_with_nans
      in if s = []
         then (Inl (TypeError ''numpy.float64 object does not support item assignment''),
               h @ map (\<lambda>d. \<lparr>shape = s, data = d\<rparr>) [v12, c2, sum])
         else if 2 ^ 64 \<le> df \<and> list_ex is_finite abs_t
         then (Inl (TypeError ''ufunc stdtr not supported for the input types''),
               h @ map (\<lambda>d. \<lparr>shape = s, data = d\<rparr>)
                     [v12, c2, var_sum, se_sum, beta_sum, t_stat, abs_t])
         else (Inr (length h + 10),
               h @ map (\<lambda>d. \<lparr>shape = s, data = d\<rparr>)
                     [v12, c2, var_sum, se_sum, beta_sum, t_stat, abs_t, cdf, tail,
                      p_value_with_nans, p_value_no_nans]))"
  by (rule compute_run) (rule inputs_okD[OF ok])+

text \<open>
  What the caller gets: one of the two exceptions, or an array of the inputs' shape.
\<close>

lemma compute_call:
  assumes ok: "inputs_ok h [beta1, beta2, var1, var2, cov12]"
  shows "call (compute_combined_pvalue N beta1 beta2 var1 var2 cov12 df) h =
     (let abs_t = map fabs
              (map2 (fdiv N) (map2 (fadd N) (data (h ! beta1)) (data (h ! beta2)))
                (map (fsqrt N) (map guard_nonpos
                  (map2 (fadd N) (map2 (fadd N) (data (h ! var1)) (data (h ! var2)))
                     (map (fmul N (Finite 2)) (data (h ! cov12)))))))
      in if shape (h ! beta1) = []
         then Inl (TypeError ''numpy.float64 object does not support item assignment'')
         else if 2 ^ 64 \<le> df \<and> list_ex is_finite abs_t
         then Inl (TypeError ''ufunc stdtr not supported for the input types'')
         else Inr \<lparr>shape = shape (h ! beta1),
                   data = map (nan_to_num1 (Finite 0)) (map (fmul N (Finite 2))
                     (map (fsub N (Finite 1)) (map (\<lambda>x. t_cdf N x df) abs_t)))\<rparr>)"
  by (simp add: call_def bnd_def compute_run_ok[OF ok] Let_def deref_def nth_append del: map_map)

text \<open>Element \<open>i\<close> of \<^verbatim>\<open>np.abs(t_stat)\<close> comes from the five elements \<open>i\<close>.\<close>

lemma abs_t_voxels:
  assumes ok: "inputs_ok h [beta1, beta2, var1, var2, cov12]"
  shows "map fabs
              (map2 (fdiv N) (map2 (fadd N) (data (h ! beta1)) (data (h ! beta2)))
                (map (fsqrt N) (map guard_nonpos
                  (map2 (fadd N) (map2 (fadd N) (data (h ! var1)) (data (h ! var2)))
                     (map (fmul N (Finite 2)) (data (h ! cov12))))))) =
         map (\<lambda>i. voxel_abs_t N (elt h beta1 i) (elt h beta2 i) (elt h var1 i) (elt h var2 i)
                    (elt h cov12 i)) [0..<length (data (h ! beta1))]"
  using inputs_okD(10-13)[OF ok]
  by (intro nth_equalityI) (simp_all add: voxel_abs_t_def elt_def Let_def)

lemma list_ex_upt: "list_ex P (map f [0..<n]) = (\<exists>i<n. P (f i))"
  by (auto simp: list_ex_iff)

text \<open>The outcome of a call, voxel by voxel.\<close>

lemma call_voxels:
  assumes ok: "inputs_ok h [beta1, beta2, var1, var2, cov12]"
  shows "call (compute_combined_pvalue N beta1 beta2 var1 var2 cov12 df) h =
     (if shape (h ! beta1) = []
      then Inl (TypeError ''numpy.float64 object does not support item assignment'')
      else if 2 ^ 64 \<le> df \<and>
              (\<exists>i<length (data (h ! beta1)).
                 is_finite (voxel_abs_t N (elt h beta1 i) (elt h beta2 i) (elt h var1 i)
                              (elt h var2 i) (elt h cov12 i)))
      then Inl (TypeError ''ufunc stdtr not supported for the input types'')
      else Inr \<lparr>shape = shape (h ! beta1),
                data = map (\<lambda>i. voxel_p N df (elt h beta1 i) (elt h beta2 i) (elt h var1 i)
                          (elt h var2 i) (elt h cov12 i)) [0..<length (data (h ! beta1))]\<rparr>)"
  unfolding compute_call[OF ok] Let_def abs_t_voxels[OF ok] list_ex_upt
  by (auto simp: voxel_p_def)

text \<open>
  Where the call returns, element \<open>i\<close> of the result is the voxel computation on the
  five elements \<open>i\<close>; and it returns on arrays with an axis when \<open>df < 2^64\<close>.
\<close>

lemma compute_item:
  assumes ok: "inputs_ok h [beta1, beta2, var1, var2, cov12]"
    and i: "i < length (data (h ! beta1))"
    and axes: "shape (h ! beta1) \<noteq> []"
    and df: "df < 2 ^ 64"
  shows "item (call (compute_combined_pvalue N beta1 beta2 var1 var2 cov12 df) h) i =
     Inr (voxel_p N df (elt h beta1 i) (elt h beta2 i) (elt h var1 i) (elt h var2 i) (elt h cov12 i))"
  using i axes df by (simp add: call_voxels[OF ok] item_def)

lemma compute_returned:
  assumes ok: "inputs_ok h [beta1, beta2, var1, var2, cov12]"
    and r: "call (compute_combined_pvalue N beta1 beta2 var1 var2 cov12 df) h = Inr r"
  shows "r = \<lparr>shape = shape (h ! beta1),
              data = map (\<lambda>i. voxel_p N df (elt h beta1 i) (elt h beta2 i) (elt h var1 i)
                          (elt h var2 i) (elt h cov12 i)) [0..<length (data (h ! beta1))]\<rparr>"
  using r unfolding call_voxels[OF ok] by (simp split: if_splits)

lemma inputs_ok_size:
  assumes "inputs_ok h (p # ps)"
  shows "length (data (h ! p)) = prod_list (shape (h ! p))"
proof -
  have "p \<in> set (p # ps)" by simp
  with assms show ?thesis unfolding inputs_ok_def wf_array_def by blast
qed

text \<open>
  The intermediate arrays in the store the call leaves, on arrays with an axis:
  \<open>var_sum\<close> (after line 71), \<open>se_sum\<close>, \<open>beta_sum\<close> and \<open>t_stat\<close> are its
  third to sixth allocations, whether line 78 raises or not.
\<close>

lemma compute_cells:
  assumes ok: "inputs_ok h [beta1, beta2, var1, var2, cov12]"
    and i: "i < length (data (h ! beta1))"
    and axes: "shape (h ! beta1) \<noteq> []"
  shows "elt (snd (compute_combined_pvalue N beta1 beta2 var1 var2 cov12 df h)) (length h + 2) i =
           guard_nonpos (fadd N (fadd N (elt h var1 i) (elt h var2 i)) (fmul N (Finite 2) (elt h cov12 i)))"
    and "elt (snd (compute_combined_pvalue N beta1 beta2 var1 var2 cov12 df h)) (length h + 3) i = fsqrt N (elt (snd (compute_combined_pvalue N beta1 beta2 var1 var2 cov12 df h)) (length h + 2) i)"
    and "elt (snd (compute_combined_pvalue N beta1 beta2 var1 var2 cov12 df h)) (length h + 4) i = fadd N (elt h beta1 i) (elt h beta2 i)"
    and "elt (snd (compute_combined_pvalue N beta1 beta2 var1 var2 cov12 df h)) (length h + 5) i = fdiv N (elt (snd (compute_combined_pvalue N beta1 beta2 var1 var2 cov12 df h)) (length h + 4) i) (elt (snd (compute_combined_pvalue N beta1 beta2 var1 var2 cov12 df h)) (length h + 3) i)"
  using i axes inputs_okD(10-13)[OF ok]
  by (simp_all add: compute_run_ok[OF ok] Let_def elt_def nth_append)

text \<open>Without axes the run ends at line 71: no standard error, no division.\<close>

lemma compute_no_axes:
  assumes ok: "inputs_ok h [beta1, beta2, var1, var2, cov12]"
    and axes: "shape (h ! beta1) = []"
  shows "fst (compute_combined_pvalue N beta1 beta2 var1 var2 cov12 df h) =
           Inl (TypeError ''numpy.float64 object does not support item assignment'')"
    and "length (snd (compute_combined_pvalue N beta1 beta2 var1 var2 cov12 df h)) = length h + 3"
  using axes by (simp_all add: compute_run_ok[OF ok] Let_def)

subsection \<open>Running main\<close>

lemma on_store_run: "m (heap w) = (r, h') \<Longrightarrow> on_store m w = (r, w\<lparr>heap := h'\<rparr>)"
  by (simp add: on_store_def)

lemma load_nifti_run:
  "files w path = Some (Image img) \<Longrightarrow>
   load_nifti path w = (Inr (length (heap w)), w\<lparr>heap := heap w @ [img_data img]\<rparr>)"
  by (simp add: load_nifti_def nib_load_def bnd_def on_store_def alloc_def)

lemma np_shape_run: "p < length h \<Longrightarrow> np_shape p h = (Inr (shape (h ! p)), h)"
  by (simp add: np_shape_def bnd_def deref_def ret_def)

lemma world_shape_run:
  "p < length (heap w) \<Longrightarrow> on_store (np_shape p) w = (Inr (shape (heap w ! p)), w)"
  by (simp add: on_store_def np_shape_run)

lemma save_nifti_run:
  "files w reference_path = Some (Image r) \<Longrightarrow> p < length (heap w) \<Longrightarrow>
   save_nifti L p output_path reference_path w =
     (if known_extension L output_path
      then (Inr (),
            w\<lparr>files := (files w)(output_path \<mapsto>
                 Image \<lparr>img_data = as_stored L (geometry r) (heap w ! p), geometry = geometry r\<rparr>)\<rparr>)
      else (Inl (ImageFileError output_path), w))"
  by (simp add: save_nifti_def nib_load_def nib_save_def bnd_def on_store_def deref_def)

text \<open>The run of main up to the shape check of line 103.\<close>

lemma main_body_loaded:
  assumes "fs (beta4 a) = Some (Image i1)" "fs (beta6 a) = Some (Image i2)"
    "fs (var4 a) = Some (Image i3)" "fs (var6 a) = Some (Image i4)" "fs (cov46 a) = Some (Image i5)"
  shows "main_body N L a \<lparr>heap = [], files = fs\<rparr> =
     (let w = \<lparr>heap = [img_data i1, img_data i2, img_data i3, img_data i4, img_data i5],
               files = fs\<rparr> in
      if \<not> (shape (img_data i1) = shape (img_data i2) \<and> shape (img_data i2) = shape (img_data i3) \<and>
             shape (img_data i3) = shape (img_data i4) \<and> shape (img_data i4) = shape (img_data i5))
      then (Inl (ValueError ''Input NIfTI files must have identical dimensions.''), w)
      else bnd (on_store (compute_combined_pvalue N 0 1 2 3 4 (n_obs a - n_predictors a - 1)))
             (\<lambda>p_map. save_nifti L p_map (output_file a) (beta4 a)) w)"
  using assms
  by (simp add: main_body_def Let_def bnd_Inr load_nifti_run world_shape_run raise_def
      eval_nat_numeral)

lemma chain_iff_all_equal:
  "(\<forall>x \<in> set [a, b, c, d, e]. \<forall>y \<in> set [a, b, c, d, e]. (f x :: 'b) = f y) =
   (f a = f b \<and> f b = f c \<and> f c = f d \<and> f d = f e)"
proof
  assume L: "\<forall>x \<in> set [a, b, c, d, e]. \<forall>y \<in> set [a, b, c, d, e]. f x = f y"
  have "f a = f b" using L[rule_format, of a b] by simp
  moreover have "f b = f c" using L[rule_format, of b c] by simp
  moreover have "f c = f d" using L[rule_format, of c d] by simp
  moreover have "f d = f e" using L[rule_format, of d e] by simp
  ultimately show "f a = f b \<and> f b = f c \<and> f c = f d \<and> f d = f e" by blast
next
  assume R: "f a = f b \<and> f b = f c \<and> f c = f d \<and> f d = f e"
  then have "f x = f e" if "x \<in> set [a, b, c, d, e]" for x
    using that by auto
  then show "\<forall>x \<in> set [a, b, c, d, e]. \<forall>y \<in> set [a, b, c, d, e]. f x = f y"
    by metis
qed

text \<open>
  With two shapes that differ, the run ends at line 105: the store holds the five arrays
  loaded and nothing that the core allocates, and the file system is as it was.
\<close>

lemma main_mismatch:
  assumes files: "fs (beta4 a) = Some (Image i1)" "fs (beta6 a) = Some (Image i2)"
    "fs (var4 a) = Some (Image i3)" "fs (var6 a) = Some (Image i4)" "fs (cov46 a) = Some (Image i5)"
    and ne: "\<not> (shape (img_data i1) = shape (img_data i2) \<and> shape (img_data i2) = shape (img_data i3) \<and>
             shape (img_data i3) = shape (img_data i4) \<and> shape (img_data i4) = shape (img_data i5))"
  shows "main N L a fs =
     (Inl (ValueError ''Input NIfTI files must have identical dimensions.''),
      \<lparr>heap = [img_data i1, img_data i2, img_data i3, img_data i4, img_data i5], files = fs\<rparr>)"
  unfolding main_def main_body_loaded[OF files] Let_def using ne by simp

text \<open>On five arrays of one shape the core ends in one of three ways.\<close>

lemma compute_same_shape_cases:
  assumes "beta1 < length h" "beta2 < length h" "var1 < length h" "var2 < length h" "cov12 < length h"
    and "shape (h ! beta2) = shape (h ! beta1)" "shape (h ! var1) = shape (h ! beta1)"
        "shape (h ! var2) = shape (h ! beta1)" "shape (h ! cov12) = shape (h ! beta1)"
  shows "(\<exists>h'. compute_combined_pvalue N beta1 beta2 var1 var2 cov12 df h =
            (Inl (TypeError ''numpy.float64 object does not support item assignment''), h')) \<or>
         (\<exists>h'. compute_combined_pvalue N beta1 beta2 var1 var2 cov12 df h =
            (Inl (TypeError ''ufunc stdtr not supported for the input types''), h')) \<or>
         (\<exists>news. compute_combined_pvalue N beta1 beta2 var1 var2 cov12 df h =
            (Inr (length h + 10), h @ news) \<and> length news = 11)"
  unfolding compute_run_same_shape[OF assms] Let_def by simp

text \<open>
  With five images of one shape, main ends with one of the two exceptions of the core,
  with the exception of \<^verbatim>\<open>nib.save\<close>, or normally.
\<close>

lemma main_same_shape:
  assumes files: "fs (beta4 a) = Some (Image i1)" "fs (beta6 a) = Some (Image i2)"
    "fs (var4 a) = Some (Image i3)" "fs (var6 a) = Some (Image i4)" "fs (cov46 a) = Some (Image i5)"
    and eq: "shape (img_data i1) = shape (img_data i2) \<and> shape (img_data i2) = shape (img_data i3) \<and>
             shape (img_data i3) = shape (img_data i4) \<and> shape (img_data i4) = shape (img_data i5)"
  shows "fst (main N L a fs) \<in>
     {Inl (TypeError ''numpy.float64 object does not support item assignment''),
      Inl (TypeError ''ufunc stdtr not supported for the input types''),
      Inl (ImageFileError (output_file a)), Inr ()}"
proof -
  let ?h = "[img_data i1, img_data i2, img_data i3, img_data i4, img_data i5]"
  let ?w = "\<lparr>heap = ?h, files = fs\<rparr>"
  let ?df = "n_obs a - n_predictors a - 1"
  let ?c = "compute_combined_pvalue N 0 1 2 3 4 ?df"
  have mb: "main N L a fs = bnd (on_store ?c)
        (\<lambda>p_map. save_nifti L p_map (output_file a) (beta4 a)) ?w"
    unfolding main_def main_body_loaded[OF files] Let_def using eq by (simp del: One_nat_def)
  have cases: "(\<exists>h'. ?c ?h =
            (Inl (TypeError ''numpy.float64 object does not support item assignment''), h')) \<or>
         (\<exists>h'. ?c ?h =
            (Inl (TypeError ''ufunc stdtr not supported for the input types''), h')) \<or>
         (\<exists>news. ?c ?h = (Inr (length ?h + 10), ?h @ news) \<and> length news = 11)"
    using eq by (intro compute_same_shape_cases) simp_all
  then consider
      (scalar) h' where "?c ?h =
        (Inl (TypeError ''numpy.float64 object does not support item assignment''), h')"
    | (cdf) h' where "?c ?h =
        (Inl (TypeError ''ufunc stdtr not supported for the input types''), h')"
    | (returns) news where "?c ?h = (Inr (length ?h + 10), ?h @ news)" "length news = 11"
    by blast
  then show ?thesis
  proof cases
    case scalar
    then have "on_store ?c ?w = (Inl (TypeError ''numpy.float64 object does not support item assignment''), ?w\<lparr>heap := h'\<rparr>)"
      by (intro on_store_run) simp
    then show ?thesis unfolding mb by (simp add: bnd_def)
  next
    case cdf
    then have "on_store ?c ?w = (Inl (TypeError ''ufunc stdtr not supported for the input types''), ?w\<lparr>heap := h'\<rparr>)"
      by (intro on_store_run) simp
    then show ?thesis unfolding mb by (simp add: bnd_def)
  next
    case returns
    then have "on_store ?c ?w = (Inr (length ?h + 10), ?w\<lparr>heap := ?h @ news\<rparr>)"
      by (intro on_store_run) simp
    then have "main N L a fs =
        save_nifti L (length ?h + 10) (output_file a) (beta4 a) (?w\<lparr>heap := ?h @ news\<rparr>)"
      unfolding mb by (simp add: bnd_def)
    also have "fst \<dots> \<in> {Inl (ImageFileError (output_file a)), Inr ()}"
      using files(1) returns(2) by (subst save_nifti_run[where r = i1]) simp_all
    finally show ?thesis by auto
  qed
qed


section \<open>Values at one voxel\<close>

lemma fdiv_NaN_right: "fdiv N a NaN = NaN"
  by (cases a) simp_all

lemma voxel_abs_t_degenerate:
  "fle (fadd N (fadd N v1 v2) (fmul N (Finite 2) c)) (Finite 0) \<Longrightarrow>
   voxel_abs_t N b1 b2 v1 v2 c = NaN"
  by (simp add: voxel_abs_t_def guard_nonpos_def fdiv_NaN_right)

lemma voxel_p_degenerate:
  "fle (fadd N (fadd N v1 v2) (fmul N (Finite 2) c)) (Finite 0) \<Longrightarrow>
   voxel_p N df b1 b2 v1 v2 c = Finite 0"
  by (simp add: voxel_p_def voxel_abs_t_degenerate t_cdf_def)


subsection \<open>Negating the coefficients\<close>

lemma rnd_odd_sum: "rnd_odd N \<Longrightarrow> rnd N (- x - y) = fneg (rnd N (x + y))"
  unfolding rnd_odd_def by (drule spec[of _ "x + y"]) simp

lemma fadd_fneg: "rnd_odd N \<Longrightarrow> fadd N (fneg a) (fneg b) = fneg (fadd N a b)"
  by (cases a; cases b) (simp_all add: rnd_odd_sum)

lemma inf_signed_neg: "inf_signed (- x) = fneg (inf_signed x)"
  by (simp add: inf_signed_def)

lemma fdiv_fneg: "rnd_odd N \<Longrightarrow> fdiv N (fneg a) b = fneg (fdiv N a b)"
  by (cases a; cases b) (simp_all add: rnd_odd_def inf_signed_neg)

lemma fabs_fneg: "fabs (fneg a) = fabs a"
  by (cases a) simp_all

lemma voxel_abs_t_fneg:
  "rnd_odd N \<Longrightarrow> voxel_abs_t N (fneg b1) (fneg b2) v1 v2 c = voxel_abs_t N b1 b2 v1 v2 c"
  by (simp add: voxel_abs_t_def fadd_fneg fdiv_fneg fabs_fneg Let_def)

lemma voxel_p_fneg:
  "rnd_odd N \<Longrightarrow> voxel_p N df (fneg b1) (fneg b2) v1 v2 c = voxel_p N df b1 b2 v1 v2 c"
  by (simp add: voxel_p_def voxel_abs_t_fneg)


subsection \<open>A zero covariance\<close>



subsection \<open>The range of the two-sided transform\<close>





subsection \<open>A positive combined variance\<close>

lemma fadd_Finite_rounded: "fadd N a b = Finite y \<Longrightarrow> \<exists>x. rnd N x = Finite y"
  by (cases a; cases b) auto

lemma flt_zero_cases: "flt (Finite 0) x \<Longrightarrow> x = PInf \<or> (\<exists>y. x = Finite y \<and> 0 < y)"
  by (cases x) simp_all

lemma flt_not_fle: "flt (Finite 0) x \<Longrightarrow> \<not> fle x (Finite 0)"
  by (cases x) simp_all

lemma guard_pos: "flt (Finite 0) x \<Longrightarrow> guard_nonpos x = x"
  by (simp add: guard_nonpos_def flt_not_fle)


text \<open>The standard error of a positive combined variance is positive.\<close>

lemma fsqrt_pos:
  assumes "rnd_sqrt_pos N" and "flt (Finite 0) (fadd N a b)"
  shows "flt (Finite 0) (fsqrt N (fadd N a b))"
proof -
  from flt_zero_cases[OF assms(2)] show ?thesis
  proof
    assume "fadd N a b = PInf" then show ?thesis by simp
  next
    assume "\<exists>y. fadd N a b = Finite y \<and> 0 < y"
    then obtain y where y: "fadd N a b = Finite y" "0 < y" by blast
    from fadd_Finite_rounded[OF y(1)] obtain x where "rnd N x = Finite y" by blast
    with assms(1) y(2) have "flt (Finite 0) (rnd N (sqrt y))" unfolding rnd_sqrt_pos_def by blast
    with y show ?thesis by simp
  qed
qed

lemma fdiv_zero_pos:
  assumes "rnd_exact N 0" "flt (Finite 0) s"
  shows "fdiv N (Finite 0) s = Finite 0"
  using flt_zero_cases[OF assms(2)] assms(1) by (auto simp: rnd_exact_def)

lemma not_fle_zero: "\<not> fle x (Finite 0) \<Longrightarrow> x = NaN \<or> flt (Finite 0) x"
  by (cases x) simp_all


text \<open>After the guard of line 71, the standard error is NaN or positive.\<close>

lemma se_sum_cases:
  assumes "rnd_sqrt_pos N"
  shows "fsqrt N (guard_nonpos (fadd N a b)) = NaN \<or>
         flt (Finite 0) (fsqrt N (guard_nonpos (fadd N a b)))"
proof (cases "fle (fadd N a b) (Finite 0)")
  case True
  then show ?thesis by (simp add: guard_nonpos_def)
next
  case False
  from not_fle_zero[OF this] show ?thesis
  proof
    assume "fadd N a b = NaN" then show ?thesis by (simp add: guard_nonpos_def)
  next
    assume pos: "flt (Finite 0) (fadd N a b)"
    from fsqrt_pos[OF assms pos] show ?thesis by (simp add: guard_pos[OF pos])
  qed
qed

lemma fdiv_nan_iff:
  assumes "rnd_not_nan N" and "s = NaN \<or> flt (Finite 0) s"
  shows "(fdiv N b s = NaN) =
         (b = NaN \<or> s = NaN \<or> ((b = PInf \<or> b = NInf) \<and> s = PInf))"
  using assms by (cases b; cases s) (auto simp: rnd_not_nan_def)


section \<open>The cells a computation leaves alone\<close>

lemma preservesD:
  "preserves n m Q \<Longrightarrow> n \<le> length h \<Longrightarrow> m h = (r, h') \<Longrightarrow>
     n \<le> length h' \<and> take n h' = take n h \<and> (\<forall>x. r = Inr x \<longrightarrow> Q x)"
  unfolding preserves_def
  apply (drule spec[of _ h])
  apply (simp split: sum.splits)
  done

lemma preservesI:
  "(\<And>h r h'. n \<le> length h \<Longrightarrow> m h = (r, h') \<Longrightarrow>
     n \<le> length h' \<and> take n h' = take n h \<and> (\<forall>x. r = Inr x \<longrightarrow> Q x)) \<Longrightarrow> preserves n m Q"
  unfolding preserves_def
  apply (intro allI impI)
  subgoal for h
    apply (cases "m h")
    apply (simp split: sum.splits)
    done
  done


lemma preserves_bnd:
  assumes m: "preserves n m Q" and f: "\<And>x. Q x \<Longrightarrow> preserves n (f x) R"
  shows "preserves n (bnd m f) R"
proof (rule preservesI)
  fix h :: store and r h'
  assume n: "n \<le> length h" and run: "bnd m f h = (r, h')"
  obtain r1 h1 where mh: "m h = (r1, h1)" by (cases "m h")
  note 1 = preservesD[OF m n mh]
  show "n \<le> length h' \<and> take n h' = take n h \<and> (\<forall>x. r = Inr x \<longrightarrow> R x)"
  proof (cases r1)
    case (Inl e)
    with mh run have "r = Inl e" "h' = h1" by (simp_all add: bnd_def)
    with 1 show ?thesis by simp
  next
    case (Inr x)
    with 1 have "Q x" by simp
    from Inr mh run have "f x h1 = (r, h')" by (simp add: bnd_def)
    from preservesD[OF f[OF \<open>Q x\<close>] _ this] 1 show ?thesis by simp
  qed
qed

lemma preserves_ret: "Q x \<Longrightarrow> preserves n (ret x) Q"
  by (rule preservesI) (auto simp: ret_def)

lemma preserves_raise: "preserves n (raise e) Q"
  by (rule preservesI) (auto simp: raise_def)

lemma preserves_alloc: "preserves n (alloc a) (\<lambda>r. n \<le> r)"
  by (rule preservesI) (auto simp: alloc_def)

lemma preserves_deref: "preserves n (deref p) (\<lambda>a. True)"
  by (rule preservesI) (auto simp: deref_def split: if_splits)

lemma preserves_assign: "n \<le> p \<Longrightarrow> preserves n (assign p a) (\<lambda>u. True)"
  by (rule preservesI) (auto simp: assign_def split: if_splits)


lemma preserves_np_unary: "preserves n (np_unary f p) (\<lambda>r. n \<le> r)"
  unfolding np_unary_def by (rule preserves_bnd[OF preserves_deref]) (rule preserves_alloc)

lemma preserves_np_binary: "preserves n (np_binary f p q) (\<lambda>r. n \<le> r)"
  unfolding np_binary_def
  by (intro preserves_bnd[OF preserves_deref])
    (simp add: preserves_alloc preserves_raise split: option.splits)

lemma preserves_np_less_equal: "preserves n (np_less_equal p c) (\<lambda>m. True)"
  unfolding np_less_equal_def
  by (rule preserves_bnd[OF preserves_deref]) (simp add: preserves_ret)

lemma preserves_np_setitem_mask: "n \<le> p \<Longrightarrow> preserves n (np_setitem_mask p msk v) (\<lambda>u. True)"
  unfolding np_setitem_mask_def
  by (rule preserves_bnd[OF preserves_deref]) (simp add: preserves_assign preserves_raise)

lemma preserves_np_t_cdf: "preserves n (np_t_cdf N p df) (\<lambda>r. n \<le> r)"
  unfolding np_t_cdf_def
  by (rule preserves_bnd[OF preserves_deref]) (simp add: preserves_alloc preserves_raise)


lemma preserves_compute:
  "preserves n (compute_combined_pvalue N beta1 beta2 var1 var2 cov12 df) (\<lambda>r. n \<le> r)"
  unfolding compute_combined_pvalue_def
  apply (rule preserves_bnd[OF preserves_np_binary])
  apply (rule preserves_bnd[OF preserves_np_unary])
  apply (rule preserves_bnd[OF preserves_np_binary])
  apply (rule preserves_bnd[OF preserves_np_less_equal])
  apply (rule preserves_bnd[OF preserves_np_setitem_mask], assumption)
  apply (rule preserves_bnd[OF preserves_np_unary])
  apply (rule preserves_bnd[OF preserves_np_binary])
  apply (rule preserves_bnd[OF preserves_np_binary])
  apply (rule preserves_bnd[OF preserves_np_unary])
  apply (rule preserves_bnd[OF preserves_np_t_cdf])
  apply (rule preserves_bnd[OF preserves_np_unary])
  apply (rule preserves_bnd[OF preserves_np_unary])
  apply (rule preserves_bnd[OF preserves_np_unary])
  apply (rule preserves_ret)
  apply assumption
  done

section \<open>The example inputs evaluated\<close>

lemma exact_rnd [simp]: "rnd exact_numerics x = Finite x"
  by (simp add: exact_numerics_def)

lemma exact_stdtr [simp]: "stdtr exact_numerics df x = 1 / 2 + arctan x / pi"
  by (simp add: exact_numerics_def)

lemmas stores = three_voxels_def three_voxels_negated_def three_voxels_other_def
  independent_voxels_def infinite_voxel_def degenerate_voxels_def no_axes_def arr1_def arr0_def
  elt_def

lemma exact_props:
  "rnd_exact exact_numerics x" "rnd_idem exact_numerics" "rnd_odd exact_numerics"
  "rnd_mono exact_numerics" "rnd_sqrt_pos exact_numerics" "rnd_not_nan exact_numerics"
  by (simp_all add: rnd_exact_def rnd_idem_def rnd_odd_def rnd_mono_def rnd_sqrt_pos_def
      rnd_not_nan_def)



lemma t1_at_one: "t_cdf exact_numerics (Finite 1) 1 = Finite (3/4)"
  by (simp add: t_cdf_def arctan_one)

lemma three_voxels_ok: "inputs_ok three_voxels [0, 1, 2, 3, 4]"
  by (simp add: inputs_ok_def three_voxels_def arr1_def wf_array_def)

lemma other_ok: "inputs_ok three_voxels_other [0, 1, 2, 3, 4]"
  by (simp add: inputs_ok_def three_voxels_other_def arr1_def wf_array_def)

lemma negated_ok: "inputs_ok three_voxels_negated [0, 1, 2, 3, 4]"
  by (simp add: inputs_ok_def three_voxels_negated_def arr1_def wf_array_def)


lemma infinite_ok: "inputs_ok infinite_voxel [0, 1, 2, 3, 4]"
  by (simp add: inputs_ok_def infinite_voxel_def arr1_def wf_array_def)

lemma degenerate_ok: "inputs_ok degenerate_voxels [0, 1, 2, 3, 4]"
  by (simp add: inputs_ok_def degenerate_voxels_def arr1_def wf_array_def)

lemma no_axes_ok: "inputs_ok no_axes [0, 1, 2, 3, 4]"
  by (simp add: inputs_ok_def no_axes_def arr0_def wf_array_def)

lemma three_voxels_axes: "shape (three_voxels ! 0) \<noteq> []"
  by (simp add: three_voxels_def arr1_def)

text \<open>
  The outcome of the core on the examples when \<open>df\<close> is \<open>2^64\<close>: on
  \<open>three_voxels\<close>, whose voxel 0 has the t statistic 1, the distribution function
  raises; on \<open>degenerate_voxels\<close>, where every t statistic is NaN, the core returns
  zeros. And on arrays without axes the core raises at line 71 for every \<open>df\<close>.
\<close>

lemma three_voxels_large_df:
  "call (compute_combined_pvalue exact_numerics 0 1 2 3 4 (2 ^ 64)) three_voxels =
     Inl (TypeError ''ufunc stdtr not supported for the input types'')"
  unfolding compute_call[OF three_voxels_ok] Let_def
  by (simp add: three_voxels_def arr1_def guard_nonpos_def)

lemma degenerate_voxels_large_df:
  "call (compute_combined_pvalue exact_numerics 0 1 2 3 4 (2 ^ 64)) degenerate_voxels =
     Inr (arr1 [Finite 0, Finite 0, Finite 0])"
  unfolding compute_call[OF degenerate_ok] Let_def
  by (simp add: degenerate_voxels_def arr1_def guard_nonpos_def t_cdf_def)

lemma no_axes_raises:
  "call (compute_combined_pvalue N 0 1 2 3 4 df) no_axes =
     Inl (TypeError ''numpy.float64 object does not support item assignment'')"
  unfolding compute_call[OF no_axes_ok] Let_def by (simp add: no_axes_def arr0_def)

text \<open>
  The three-voxel scenario run in full, for \<open>df = 1\<close>: the eleven arrays the core
  allocates, in the order \<open>var1 + var2\<close>, \<open>2.0 * cov12\<close>, \<open>var_sum\<close> (after
  line 71), \<open>se_sum\<close>, \<open>beta_sum\<close>, \<open>t_stat\<close>, its absolute value, the
  distribution function, \<open>1.0 - cdf\<close>, \<open>p_value_with_nans\<close> and
  \<open>p_value_no_nans\<close>. And a run of main on the five images holding these arrays: it
  ends normally and has written the p-value map.
\<close>

lemma example_heap:
  "[three_voxels ! 0, three_voxels ! 1, three_voxels ! 2, three_voxels ! 3, three_voxels ! 4] =
     three_voxels"
  by (simp add: three_voxels_def)

lemma three_voxels_df1:
  "compute_combined_pvalue exact_numerics 0 1 2 3 4 1 three_voxels =
     (Inr 15,
      three_voxels @
      [arr1 [Finite 2, Finite (- 1/100), Finite 2],
       arr1 [Finite 2, Finite 0, Finite 2],
       arr1 [Finite 4, NaN, Finite 4],
       arr1 [Finite 2, NaN, Finite 2],
       arr1 [Finite 2, Finite (8/10), Finite 0],
       arr1 [Finite 1, NaN, Finite 0],
       arr1 [Finite 1, NaN, Finite 0],
       arr1 [Finite (3/4), NaN, Finite (1/2)],
       arr1 [Finite (1/4), NaN, Finite (1/2)],
       arr1 [Finite (1/2), NaN, Finite 1],
       arr1 [Finite (1/2), Finite 0, Finite 1]])"
  unfolding compute_run_ok[OF three_voxels_ok] Let_def
  by (simp add: three_voxels_def arr1_def guard_nonpos_def t_cdf_def arctan_one)

lemma example_main_writes:
  "fst (main exact_numerics example_nibabel example_args example_files) = Inr () \<and>
   files (snd (main exact_numerics example_nibabel example_args example_files)) =
     example_files(''p.nii'' \<mapsto>
       Image \<lparr>img_data = arr1 [Finite (1/2), Finite 0, Finite 1], geometry = 0\<rparr>)"
proof -
  let ?i = "\<lambda>k. \<lparr>img_data = three_voxels ! k, geometry = 0::nat\<rparr>"
  have ok: "example_files (beta4 example_args) = Some (Image (?i 0))"
    "example_files (beta6 example_args) = Some (Image (?i 1))"
    "example_files (var4 example_args) = Some (Image (?i 2))"
    "example_files (var6 example_args) = Some (Image (?i 3))"
    "example_files (cov46 example_args) = Some (Image (?i 4))"
    by (simp_all add: example_files_def example_args_def)
  have same: "shape (img_data (?i 0)) = shape (img_data (?i 1)) \<and>
      shape (img_data (?i 1)) = shape (img_data (?i 2)) \<and>
      shape (img_data (?i 2)) = shape (img_data (?i 3)) \<and>
      shape (img_data (?i 3)) = shape (img_data (?i 4))"
    by (simp add: stores)
  have df: "n_obs example_args - n_predictors example_args - 1 = 1"
    by (simp add: example_args_def)
  have mb: "main exact_numerics example_nibabel example_args example_files =
      bnd (on_store (compute_combined_pvalue exact_numerics 0 1 2 3 4 1))
        (\<lambda>p_map. save_nifti example_nibabel p_map (output_file example_args) (beta4 example_args))
        \<lparr>heap = three_voxels, files = example_files\<rparr>"
    unfolding main_def main_body_loaded[OF ok] Let_def df
    using same by (simp add: example_heap del: One_nat_def)
  have run: "on_store (compute_combined_pvalue exact_numerics 0 1 2 3 4 1)
        \<lparr>heap = three_voxels, files = example_files\<rparr> =
      (Inr 15, \<lparr>heap = snd (compute_combined_pvalue exact_numerics 0 1 2 3 4 1 three_voxels),
                files = example_files\<rparr>)"
    by (simp add: on_store_def three_voxels_df1 del: One_nat_def)
  have ext: "known_extension example_nibabel (output_file example_args)"
    by (simp add: example_nibabel_def example_args_def)
  have m: "main exact_numerics example_nibabel example_args example_files =
      save_nifti example_nibabel 15 (output_file example_args) (beta4 example_args)
        \<lparr>heap = snd (compute_combined_pvalue exact_numerics 0 1 2 3 4 1 three_voxels),
         files = example_files\<rparr>"
    unfolding mb bnd_def run by simp
  show ?thesis
    unfolding m three_voxels_df1
    by (simp add: save_nifti_def nib_load_def nib_save_def bnd_def on_store_def deref_def
        example_files_def example_nibabel_def example_args_def three_voxels_def
        del: One_nat_def)
qed


lemma float64_max_pos: "0 < float64_max"
  by (simp add: float64_max_def)

lemma largest_ok: "inputs_ok largest_voxel [0, 1, 2, 3, 4]"
  by (simp add: inputs_ok_def largest_voxel_def arr1_def wf_array_def)

lemma overflow_sum: "fadd overflowing_numerics (Finite float64_max) (Finite float64_max) = PInf"
  using float64_max_pos by (simp add: overflowing_numerics_def)

section \<open>binary64 rounding has the properties assumed of rounding\<close>

subsection \<open>Rounding to an integer\<close>

lemma round_even_of_int [simp]: "round_even (of_int k) = k"
  by (simp add: round_even_def)

lemma round_even_cases:
  "round_even m = \<lfloor>m\<rfloor> \<or> round_even m = \<lfloor>m\<rfloor> + 1"
  by (simp add: round_even_def)

lemma round_even_mono: "m \<le> n \<Longrightarrow> round_even m \<le> round_even n"
proof -
  assume mn: "m \<le> n"
  then have fl: "\<lfloor>m\<rfloor> \<le> \<lfloor>n\<rfloor>" by (rule floor_mono)
  show ?thesis
  proof (cases "\<lfloor>m\<rfloor> = \<lfloor>n\<rfloor>")
    case True
    with mn have "m - of_int \<lfloor>m\<rfloor> \<le> n - of_int \<lfloor>n\<rfloor>" by simp
    with True show ?thesis by (auto simp: round_even_def)
  next
    case False
    with fl have "\<lfloor>m\<rfloor> + 1 \<le> \<lfloor>n\<rfloor>" by simp
    moreover have "round_even m \<le> \<lfloor>m\<rfloor> + 1" using round_even_cases[of m] by auto
    moreover have "\<lfloor>n\<rfloor> \<le> round_even n" using round_even_cases[of n] by auto
    ultimately show ?thesis by linarith
  qed
qed

lemma round_even_minus: "round_even (- m) = - round_even m"
proof (cases "m = of_int \<lfloor>m\<rfloor>")
  case True
  then obtain k :: int where "m = of_int k" by blast
  then have "round_even (- m) = round_even (of_int (- k))" by simp
  also have "\<dots> = - k" by (rule round_even_of_int)
  finally show ?thesis using \<open>m = of_int k\<close> by simp
next
  case False
  then have lt: "of_int \<lfloor>m\<rfloor> < m"
    using of_int_floor_le[of m] by linarith
  have fl: "\<lfloor>- m\<rfloor> = - \<lfloor>m\<rfloor> - 1"
  proof (rule floor_unique)
    have "m < of_int \<lfloor>m\<rfloor> + 1" by linarith
    then have "- of_int \<lfloor>m\<rfloor> - 1 \<le> - m" by linarith
    then show "of_int (- \<lfloor>m\<rfloor> - 1) \<le> - m" by simp
    show "- m < of_int (- \<lfloor>m\<rfloor> - 1) + 1" using lt by simp
  qed
  have fr: "- m - of_int \<lfloor>- m\<rfloor> = 1 - (m - of_int \<lfloor>m\<rfloor>)" by (simp add: fl)
  have ev: "even \<lfloor>- m\<rfloor> = odd \<lfloor>m\<rfloor>" by (simp add: fl)
  show ?thesis
    unfolding round_even_def[of "- m"] fr ev unfolding round_even_def[of m] fl
    by auto
qed

subsection \<open>Exponent and spacing\<close>

lemma ulp_pos: "0 < ulp x"
  by (simp add: ulp_def)

lemma binade_minus [simp]: "binade (- x) = binade x"
  by (simp add: binade_def)

lemma ulp_minus [simp]: "ulp (- x) = ulp x"
  by (simp add: ulp_def)

lemma nearest64_minus: "nearest64 (- x) = - nearest64 x"
  by (simp add: nearest64_def round_even_minus)

lemma nearest64_zero [simp]: "nearest64 0 = 0"
  by (simp add: nearest64_def round_even_def)

lemma binade_ge: "- 1022 \<le> binade x"
  by (simp add: binade_def)

lemma binade_upper: "0 < x \<Longrightarrow> x < 2 powr real_of_int (binade x + 1)"
proof -
  assume x: "0 < x"
  have "x < 2 powr real_of_int (\<lfloor>log 2 x\<rfloor> + 1)"
    using floor_log_eq_powr_iff[of x 2 "\<lfloor>log 2 x\<rfloor>"] x by simp
  also have "\<dots> \<le> 2 powr real_of_int (binade x + 1)"
    using x by (intro powr_mono) (simp_all add: binade_def)
  finally show ?thesis .
qed

lemma binade_lower: "2 powr (- 1022) \<le> x \<Longrightarrow> 2 powr real_of_int (binade x) \<le> x"
proof -
  assume n: "2 powr (- 1022) \<le> x"
  then have x: "0 < x" using powr_gt_zero[of 2 "- 1022"] by linarith
  from n have "- 1022 \<le> log 2 x" using x by (simp add: le_log_iff)
  then have "- 1022 \<le> \<lfloor>log 2 x\<rfloor>" by (simp add: le_floor_iff)
  then have "binade x = \<lfloor>log 2 x\<rfloor>" using x by (simp add: binade_def)
  then show ?thesis
    using floor_log_eq_powr_iff[of x 2 "\<lfloor>log 2 x\<rfloor>"] x by simp
qed

lemma binade_mono: "0 < x \<Longrightarrow> x \<le> y \<Longrightarrow> binade x \<le> binade y"
  unfolding binade_def by (intro max.mono floor_mono) (simp_all add: log_le_cancel_iff)

lemma quotient_upper: "0 < x \<Longrightarrow> x / ulp x < 2 ^ 53"
proof -
  assume x: "0 < x"
  have "x / ulp x < 2 powr real_of_int (binade x + 1) / ulp x"
    using binade_upper[OF x] ulp_pos[of x] by (simp add: divide_strict_right_mono)
  also have "\<dots> = 2 powr (real_of_int (binade x + 1) - real_of_int (binade x - 52))"
    unfolding ulp_def by (rule powr_diff[symmetric])
  also have "\<dots> = 2 powr 53" by simp
  also have "\<dots> = 2 ^ 53" by simp
  finally show ?thesis .
qed

lemma quotient_lower: "2 powr (- 1022) \<le> x \<Longrightarrow> 2 ^ 52 \<le> x / ulp x"
proof -
  assume n: "2 powr (- 1022) \<le> x"
  have "2 powr real_of_int (binade x) / ulp x \<le> x / ulp x"
    using binade_lower[OF n] ulp_pos[of x] by (simp add: divide_right_mono)
  moreover have "2 powr real_of_int (binade x) / ulp x =
      2 powr (real_of_int (binade x) - real_of_int (binade x - 52))"
    unfolding ulp_def by (rule powr_diff[symmetric])
  moreover have "\<dots> = 2 powr 52" by simp
  moreover have "\<dots> = 2 ^ 52" by simp
  ultimately show ?thesis by simp
qed

lemma round_even_le: "m \<le> of_int k \<Longrightarrow> round_even m \<le> k"
  using round_even_mono[of m "of_int k"] by simp

lemma round_even_ge: "of_int k \<le> m \<Longrightarrow> k \<le> round_even m"
  using round_even_mono[of "of_int k" m] by simp

lemma nearest64_nonneg: "0 \<le> x \<Longrightarrow> 0 \<le> nearest64 x"
proof -
  assume "0 \<le> x"
  then have "of_int 0 \<le> x / ulp x" using ulp_pos[of x] by simp
  from round_even_ge[OF this] show ?thesis
    using ulp_pos[of x] by (simp add: nearest64_def)
qed

lemma nearest64_upper: "0 < x \<Longrightarrow> nearest64 x \<le> 2 powr real_of_int (binade x + 1)"
proof -
  assume x: "0 < x"
  have "x / ulp x \<le> of_int (2 ^ 53)" using quotient_upper[OF x] by simp
  from round_even_le[OF this] have "of_int (round_even (x / ulp x)) \<le> (2::real) ^ 53"
    by (metis of_int_le_iff of_int_numeral of_int_power)
  then have "nearest64 x \<le> 2 ^ 53 * ulp x"
    unfolding nearest64_def using ulp_pos[of x] by (simp add: mult_right_mono)
  also have "2 ^ 53 * ulp x = 2 powr 53 * 2 powr real_of_int (binade x - 52)"
    by (simp add: ulp_def)
  also have "\<dots> = 2 powr (53 + real_of_int (binade x - 52))"
    by (simp only: powr_add)
  also have "\<dots> = 2 powr real_of_int (binade x + 1)" by (simp add: add.commute)
  finally show ?thesis .
qed

lemma nearest64_lower:
  "2 powr (- 1022) \<le> x \<Longrightarrow> 2 powr real_of_int (binade x) \<le> nearest64 x"
proof -
  assume n: "2 powr (- 1022) \<le> x"
  have "of_int (2 ^ 52) \<le> x / ulp x" using quotient_lower[OF n] by simp
  from round_even_ge[OF this] have "(2::real) ^ 52 \<le> of_int (round_even (x / ulp x))"
    by (metis of_int_le_iff of_int_numeral of_int_power)
  then have "2 ^ 52 * ulp x \<le> nearest64 x"
    unfolding nearest64_def using ulp_pos[of x] by (simp add: mult_right_mono)
  moreover have "2 ^ 52 * ulp x = 2 powr 52 * 2 powr real_of_int (binade x - 52)"
    by (simp add: ulp_def)
  moreover have "\<dots> = 2 powr (52 + real_of_int (binade x - 52))"
    by (simp only: powr_add)
  moreover have "\<dots> = 2 powr real_of_int (binade x)" by simp
  ultimately show ?thesis by simp
qed

subsection \<open>Monotonicity and the representable numbers\<close>

lemma nearest64_mono_pos:
  assumes x: "0 < x" and xy: "x \<le> y"
  shows "nearest64 x \<le> nearest64 y"
proof (cases "binade x = binade y")
  case True
  then have u: "ulp y = ulp x" by (simp add: ulp_def)
  have "x / ulp x \<le> y / ulp x" using xy ulp_pos[of x] by (simp add: divide_right_mono)
  from round_even_mono[OF this] show ?thesis
    unfolding nearest64_def u using ulp_pos[of x] by (simp add: mult_right_mono)
next
  case False
  with binade_mono[OF x xy] have lt: "binade x + 1 \<le> binade y" by simp
  have y: "0 < y" using x xy by simp
  have "- 1022 < binade y" using lt binade_ge[of x] by linarith
  then have "\<lfloor>log 2 y\<rfloor> = binade y" using y by (simp add: binade_def max_def split: if_splits)
  then have "2 powr real_of_int (binade y) \<le> y"
    using floor_log_eq_powr_iff[of y 2 "binade y"] y by simp
  moreover have "2 powr (- 1022) \<le> 2 powr real_of_int (binade y)"
    using binade_ge[of y] by (intro powr_mono) simp_all
  ultimately have n: "2 powr (- 1022) \<le> y" by linarith
  have "nearest64 x \<le> 2 powr real_of_int (binade x + 1)" by (rule nearest64_upper[OF x])
  also have "\<dots> \<le> 2 powr real_of_int (binade y)" using lt by (intro powr_mono) simp_all
  also have "\<dots> \<le> nearest64 y" by (rule nearest64_lower[OF n])
  finally show ?thesis .
qed

lemma nearest64_mono: "x \<le> y \<Longrightarrow> nearest64 x \<le> nearest64 y"
proof -
  assume xy: "x \<le> y"
  consider "0 < x" | "x \<le> 0" "0 \<le> y" | "y < 0" by linarith
  then show ?thesis
  proof cases
    case 1
    then show ?thesis using xy by (rule nearest64_mono_pos)
  next
    case 2
    have "nearest64 x = - nearest64 (- x)" by (simp add: nearest64_minus)
    moreover have "0 \<le> nearest64 (- x)" using 2(1) by (intro nearest64_nonneg) simp
    moreover have "0 \<le> nearest64 y" using 2(2) by (rule nearest64_nonneg)
    ultimately show ?thesis by linarith
  next
    case 3
    then have "0 < - y" "- y \<le> - x" using xy by simp_all
    from nearest64_mono_pos[OF this] show ?thesis by (simp add: nearest64_minus)
  qed
qed

text \<open>A number \<open>k * 2^q\<close> with \<open>|k| \<le> 2^53\<close> and \<open>q \<ge> -1074\<close> is a float64.\<close>

lemma binade_scaled:
  assumes k: "0 < k" "k < 2 ^ 53" and q: "- 1074 \<le> q"
  shows "binade (of_int k * 2 powr real_of_int q) \<le> q + 52"
proof -
  let ?y = "of_int k * 2 powr real_of_int q :: real"
  have y: "0 < ?y" using k by simp
  have "(of_int k :: real) < of_int (2 ^ 53)" using k(2) by (simp only: of_int_less_iff)
  then have "(of_int k :: real) < 2 powr 53" by simp
  then have "?y < 2 powr 53 * 2 powr real_of_int q" by (simp add: mult_strict_right_mono)
  also have "\<dots> = 2 powr (53 + real_of_int q)" by (simp only: powr_add)
  finally have "log 2 ?y < 53 + real_of_int q" using y by (simp add: log_less_iff)
  then have "log 2 ?y < real_of_int (q + 53)" by simp
  then have "\<lfloor>log 2 ?y\<rfloor> < q + 53" by (simp only: floor_less_iff)
  then show ?thesis using q y by (simp add: binade_def)
qed

lemma nearest64_scaled_pos:
  assumes k: "0 < k" "k < 2 ^ 53" and q: "- 1074 \<le> q"
  shows "nearest64 (of_int k * 2 powr real_of_int q) = of_int k * 2 powr real_of_int q"
proof -
  let ?y = "of_int k * 2 powr real_of_int q :: real"
  define e where "e = q + 52 - binade ?y"
  have e: "0 \<le> e" using binade_scaled[OF k q] by (simp add: e_def)
  have "2 powr real_of_int q / ulp ?y = 2 powr (real_of_int q - real_of_int (binade ?y - 52))"
    unfolding ulp_def by (rule powr_diff[symmetric])
  also have "real_of_int q - real_of_int (binade ?y - 52) = real_of_int e" by (simp add: e_def)
  also have "2 powr real_of_int e = 2 powr real (nat e)" using e by simp
  also have "\<dots> = 2 ^ nat e" by (simp add: powr_realpow)
  finally have p: "2 powr real_of_int q / ulp ?y = 2 ^ nat e" .
  have "?y / ulp ?y = of_int k * (2 powr real_of_int q / ulp ?y)"
    by (simp only: times_divide_eq_right)
  also have "\<dots> = of_int k * 2 ^ nat e" by (simp only: p)
  also have "\<dots> = of_int (k * 2 ^ nat e)" by simp
  finally have j: "?y / ulp ?y = of_int (k * 2 ^ nat e)" .
  have "nearest64 ?y = of_int (k * 2 ^ nat e) * ulp ?y"
    unfolding nearest64_def j by (simp only: round_even_of_int)
  also have "\<dots> = ?y / ulp ?y * ulp ?y" by (simp only: j)
  also have "\<dots> = ?y" using ulp_pos[of ?y] by simp
  finally show ?thesis .
qed

lemma nearest64_scaled:
  assumes k: "\<bar>k\<bar> \<le> 2 ^ 53" and q: "- 1074 \<le> q"
  shows "nearest64 (of_int k * 2 powr real_of_int q) = of_int k * 2 powr real_of_int q"
proof -
  have pos: "nearest64 (of_int j * 2 powr real_of_int q) = of_int j * 2 powr real_of_int q"
    if j: "0 < j" "j \<le> 2 ^ 53" for j
  proof (cases "j = 2 ^ 53")
    case False
    then show ?thesis using j q by (intro nearest64_scaled_pos) simp_all
  next
    case True
    have "of_int j * 2 powr real_of_int q = 2 powr 53 * 2 powr real_of_int q"
      by (simp add: True)
    also have "\<dots> = 2 powr (52 + real_of_int (q + 1))" by (simp only: powr_add[symmetric]) simp
    also have "\<dots> = 2 powr 52 * 2 powr real_of_int (q + 1)" by (simp only: powr_add)
    also have "\<dots> = of_int (2 ^ 52) * 2 powr real_of_int (q + 1)" by simp
    finally have eq: "of_int j * 2 powr real_of_int q = of_int (2 ^ 52) * 2 powr real_of_int (q + 1)" .
    show ?thesis unfolding eq using q by (intro nearest64_scaled_pos) simp_all
  qed
  consider "0 < k" | "k = 0" | "k < 0" by linarith
  then show ?thesis
  proof cases
    case 1
    then show ?thesis using k by (intro pos) simp_all
  next
    case 2
    then show ?thesis by simp
  next
    case 3
    then have "nearest64 (of_int (- k) * 2 powr real_of_int q) = of_int (- k) * 2 powr real_of_int q"
      using k by (intro pos) simp_all
    then have "nearest64 (- (of_int k * 2 powr real_of_int q)) = - (of_int k * 2 powr real_of_int q)"
      by simp
    then show ?thesis by (simp only: nearest64_minus neg_equal_iff_equal)
  qed
qed

text \<open>Every value of \<open>nearest64\<close> has that form.\<close>

lemma round_even_quotient_bound: "\<bar>round_even (x / ulp x)\<bar> \<le> 2 ^ 53"
proof -
  have pos: "round_even (y / ulp y) \<le> 2 ^ 53" if "0 < y" for y
  proof -
    have "y / ulp y \<le> of_int (2 ^ 53)" using quotient_upper[OF that] by simp
    then show ?thesis by (rule round_even_le)
  qed
  have nonneg: "0 \<le> round_even (y / ulp y)" if "0 \<le> y" for y
  proof -
    have "of_int 0 \<le> y / ulp y" using that ulp_pos[of y] by simp
    then show ?thesis by (rule round_even_ge)
  qed
  consider "0 < x" | "x = 0" | "x < 0" by linarith
  then show ?thesis
  proof cases
    case 1
    then show ?thesis using pos[of x] nonneg[of x] by simp
  next
    case 2
    then show ?thesis by (simp add: round_even_def)
  next
    case 3
    then have "0 < - x" by simp
    from pos[OF this] nonneg[of "- x"] 3 show ?thesis by (simp add: round_even_minus)
  qed
qed

lemma nearest64_idem: "nearest64 (nearest64 x) = nearest64 x"
proof -
  have "nearest64 x = of_int (round_even (x / ulp x)) * 2 powr real_of_int (binade x - 52)"
    by (simp add: nearest64_def ulp_def)
  moreover have "nearest64 (of_int (round_even (x / ulp x)) * 2 powr real_of_int (binade x - 52)) =
      of_int (round_even (x / ulp x)) * 2 powr real_of_int (binade x - 52)"
    using round_even_quotient_bound[of x] binade_ge[of x] by (intro nearest64_scaled) simp_all
  ultimately show ?thesis by simp
qed

subsection \<open>The properties\<close>

lemma float64_max_ge_one: "1 \<le> float64_max"
proof -
  have "(1::real) \<le> 2 ^ 1023" by (rule one_le_power) simp
  moreover have "(1::real) \<le> 2 - 1 / 2 ^ 52" by simp
  ultimately have "1 * 1 \<le> (2 - 1 / 2 ^ 52) * (2::real) ^ 1023" by (intro mult_mono) simp_all
  then show ?thesis by (simp add: float64_max_def)
qed

lemma round64_not_nan: "round64 x \<noteq> NaN"
  by (simp add: round64_def)

lemma round64_minus: "round64 (- x) = fneg (round64 x)"
  using float64_max_ge_one by (simp add: round64_def nearest64_minus)

lemma round64_mono: "x \<le> y \<Longrightarrow> fle (round64 x) (round64 y)"
  using nearest64_mono[of x y] float64_max_ge_one by (simp add: round64_def)

lemma round64_FiniteD:
  "round64 x = Finite y \<Longrightarrow> y = nearest64 x \<and> \<not> float64_max < y \<and> \<not> y < - float64_max"
  by (auto simp: round64_def split: if_splits)

lemma round64_idem: "round64 x = Finite y \<Longrightarrow> round64 y = Finite y"
proof -
  assume a: "round64 x = Finite y"
  from round64_FiniteD[OF a] have y: "y = nearest64 x"
    and b: "\<not> float64_max < y \<and> \<not> y < - float64_max"
    by (rule conjunct1, rule conjunct2)
  have "nearest64 y = y" unfolding y by (rule nearest64_idem)
  then show ?thesis using b by (simp add: round64_def)
qed

lemma round64_scaled:
  assumes "\<bar>k\<bar> \<le> 2 ^ 53" "- 1074 \<le> q" "\<bar>of_int k * 2 powr real_of_int q\<bar> \<le> float64_max"
  shows "round64 (of_int k * 2 powr real_of_int q) = Finite (of_int k * 2 powr real_of_int q)"
proof -
  have "\<not> float64_max < of_int k * 2 powr real_of_int q"
    "\<not> of_int k * 2 powr real_of_int q < - float64_max"
    using assms(3) by linarith+
  then show ?thesis by (simp add: round64_def nearest64_scaled[OF assms(1,2)])
qed

lemma round64_zero: "round64 0 = Finite 0"
  using float64_max_ge_one by (simp add: round64_def)

lemma round64_one: "round64 1 = Finite 1"
  using round64_scaled[of 1 0] float64_max_ge_one by simp

lemma round64_half: "round64 (1/2) = Finite (1/2)"
proof -
  have "(2::real) powr real_of_int (- 1) = 1 / 2" by (simp add: powr_minus_divide)
  then show ?thesis using round64_scaled[of 1 "- 1"] float64_max_ge_one by simp
qed

text \<open>The least positive float64 is \<open>2^-1074\<close>, and its square root is a float64.\<close>

lemma nearest64_pos_least: "0 < nearest64 x \<Longrightarrow> 2 powr (- 1074) \<le> nearest64 x"
proof -
  assume p: "0 < nearest64 x"
  then have "0 < real_of_int (round_even (x / ulp x))"
    using ulp_pos[of x] by (simp add: nearest64_def zero_less_mult_iff)
  then have "1 \<le> round_even (x / ulp x)" by simp
  then have j: "1 \<le> real_of_int (round_even (x / ulp x))" by simp
  have "2 powr (- 1074) \<le> ulp x"
    unfolding ulp_def using binade_ge[of x] by (intro powr_mono) simp_all
  then have "1 * 2 powr (- 1074) \<le> real_of_int (round_even (x / ulp x)) * ulp x"
    using j by (intro mult_mono) simp_all
  then show ?thesis by (simp add: nearest64_def)
qed

lemma round64_sqrt_pos:
  assumes "round64 x = Finite y" "0 < y"
  shows "flt (Finite 0) (round64 (sqrt y))"
proof -
  from round64_FiniteD[OF assms(1)] assms(2) have "2 powr (- 1074) \<le> y"
    using nearest64_pos_least[of x] by simp
  then have "sqrt (2 powr (- 1074)) \<le> sqrt y" by simp
  moreover have "sqrt (2 powr (- 1074)) = 2 powr (- 537)" by (simp add: powr_half_sqrt[symmetric] powr_powr)
  ultimately have "2 powr (- 537) \<le> sqrt y" by simp
  from nearest64_mono[OF this] have "nearest64 (2 powr (- 537)) \<le> nearest64 (sqrt y)" .
  moreover have "nearest64 (of_int 1 * 2 powr real_of_int (- 537)) = of_int 1 * 2 powr real_of_int (- 537)"
    by (rule nearest64_scaled) simp_all
  then have "nearest64 (2 powr (- 537)) = 2 powr (- 537)" by simp
  ultimately have "0 < nearest64 (sqrt y)" using powr_gt_zero[of 2 "- 537"] by linarith
  then show ?thesis by (simp add: round64_def)
qed

lemma binary64_props:
  "rnd_exact (binary64_numerics core) 0" "rnd_exact (binary64_numerics core) (1/2)"
  "rnd_exact (binary64_numerics core) 1"
  "rnd_idem (binary64_numerics core)" "rnd_odd (binary64_numerics core)"
  "rnd_mono (binary64_numerics core)" "rnd_sqrt_pos (binary64_numerics core)"
  "rnd_not_nan (binary64_numerics core)"
  unfolding rnd_exact_def rnd_idem_def rnd_odd_def rnd_mono_def rnd_sqrt_pos_def rnd_not_nan_def
    binary64_numerics_def
  using round64_zero round64_half round64_one round64_idem round64_minus round64_mono
    round64_sqrt_pos round64_not_nan
  by simp_all blast

subsection \<open>A positive variance that rounds to zero\<close>

lemma binade_near_one: "binade (1 + 1 / 2 ^ 53) = 0"
proof -
  have x: "(0::real) < 1 + 1 / 2 ^ 53" by simp
  have "(2::real) powr real_of_int 0 \<le> 1 + 1 / 2 ^ 53" by simp
  moreover have "(1::real) + 1 / 2 ^ 53 < 2 powr real_of_int (0 + 1)" by simp
  ultimately have "\<lfloor>log 2 (1 + 1 / 2 ^ 53 :: real)\<rfloor> = 0"
    using floor_log_eq_powr_iff[of "1 + 1 / 2 ^ 53" 2 0] x by simp
  then show ?thesis by (simp add: binade_def)
qed

lemma ulp_near_one: "ulp (1 + 1 / 2 ^ 53) = 1 / 2 ^ 52"
proof -
  have "ulp (1 + 1 / 2 ^ 53) = 2 powr (- 52)" unfolding ulp_def binade_near_one by simp
  also have "\<dots> = 1 / 2 powr 52" by (rule powr_minus_divide)
  also have "\<dots> = 1 / 2 ^ 52" by simp
  finally show ?thesis .
qed

lemma round_even_tie: "even k \<Longrightarrow> round_even (of_int k + 1 / 2) = k"
proof -
  assume k: "even k"
  have f: "\<lfloor>of_int k + 1 / 2 :: real\<rfloor> = k" by (rule floor_unique) simp_all
  show ?thesis unfolding round_even_def f using k by simp
qed

text \<open>A tie: \<open>1 + 2^-53\<close> lies halfway between the float64 numbers 1 and \<open>1 + 2^-52\<close>.\<close>

lemma round64_tie: "round64 (1 + 1 / 2 ^ 53) = Finite 1"
proof -
  have q: "(1 + 1 / 2 ^ 53) / (1 / 2 ^ 52) = of_int (2 ^ 52) + (1 / 2 :: real)" by simp
  have "nearest64 (1 + 1 / 2 ^ 53) = of_int (round_even (of_int (2 ^ 52) + 1 / 2)) * (1 / 2 ^ 52)"
    unfolding nearest64_def ulp_near_one q ..
  also have "round_even (of_int (2 ^ 52) + 1 / 2) = 2 ^ 52" by (rule round_even_tie) simp
  finally have "nearest64 (1 + 1 / 2 ^ 53) = 1" by simp
  then show ?thesis using float64_max_ge_one by (simp add: round64_def)
qed

text \<open>
  So a combined variance that is positive as a real number can be zero as the program
  computes it: with \<open>var1 = 1\<close>, \<open>var2 = 2^-53\<close> and \<open>cov12 = -1/2\<close>, all of them
  float64 numbers, the sum is \<open>2^-53\<close>, and float64 arithmetic gives 0.
\<close>

lemma computed_variance_vanishes:
  "(0::real) < 1 + 1 / 2 ^ 53 + 2 * (- 1 / 2) \<and>
   fadd (binary64_numerics core)
     (fadd (binary64_numerics core) (Finite 1) (Finite (1 / 2 ^ 53)))
     (fmul (binary64_numerics core) (Finite 2) (Finite (- 1 / 2))) = Finite 0"
proof -
  let ?N = "binary64_numerics core"
  have r: "rnd ?N = round64" by (simp add: binary64_numerics_def)
  have "fadd ?N (Finite 1) (Finite (1 / 2 ^ 53)) = round64 (1 + 1 / 2 ^ 53)"
    by (simp only: fadd.simps r)
  then have a: "fadd ?N (Finite 1) (Finite (1 / 2 ^ 53)) = Finite 1"
    by (simp only: round64_tie)
  have m: "fmul ?N (Finite 2) (Finite (- 1 / 2)) = Finite (- 1)"
    using round64_minus[of 1] by (simp add: r round64_one)
  have z: "fadd ?N (Finite 1) (Finite (- 1)) = Finite 0"
    by (simp add: r round64_zero)
  show ?thesis unfolding a m z by simp
qed

text \<open>
  On \<open>tie_voxel\<close>, in float64 arithmetic, the voxel is a degenerate one and the output
  is 0, for every \<open>df\<close> below \<open>2^64\<close> and every numeric core.
\<close>

lemma tie_voxel_output:
  assumes "df < 2 ^ 64"
  shows "item (call (compute_combined_pvalue (binary64_numerics core) 0 1 2 3 4 df) tie_voxel) 0 =
           Inr (Finite 0)"
proof -
  have ok: "inputs_ok tie_voxel [0, 1, 2, 3, 4]"
    by (simp add: inputs_ok_def tie_voxel_def arr1_def wf_array_def)
  have i: "0 < length (data (tie_voxel ! 0))" by (simp add: tie_voxel_def arr1_def)
  have axes: "shape (tie_voxel ! 0) \<noteq> []" by (simp add: tie_voxel_def arr1_def)
  have e: "elt tie_voxel 2 0 = Finite 1" "elt tie_voxel 3 0 = Finite (1 / 2 ^ 53)"
    "elt tie_voxel 4 0 = Finite (- 1 / 2)"
    by (simp_all add: tie_voxel_def arr1_def elt_def)
  have "fle (fadd (binary64_numerics core)
          (fadd (binary64_numerics core) (elt tie_voxel 2 0) (elt tie_voxel 3 0))
          (fmul (binary64_numerics core) (Finite 2) (elt tie_voxel 4 0))) (Finite 0)"
    unfolding e using computed_variance_vanishes[of core] by simp
  then show ?thesis
    unfolding compute_item[OF ok i axes assms] by (simp add: voxel_p_degenerate)
qed

section \<open>The claims\<close>

text \<open>
  C1 (as amended). On arrays with at least one axis and for \<open>df < 2^64\<close>: for every
  voxel index \<open>i\<close> where the combined variance \<open>var1[i] + var2[i] + 2*cov12[i]\<close>, as
  the program computes it, is \<open>> 0\<close>, if
  \<open>2 * (1 - t.cdf(|beta1[i] + beta2[i]| / sqrt(var1[i] + var2[i] + 2*cov12[i]), df))\<close>
  is a finite number \<open>p\<close>, the output at \<open>i\<close> is \<open>p\<close>. (The value is NaN, and
  the output 0, when \<open>df \<le> 0\<close> or when the t statistic is NaN.)
\<close>

theorem valid_voxel_formula:
  assumes ok: "inputs_ok h [beta1, beta2, var1, var2, cov12]"
    and i: "i < length (data (h ! beta1))"
    and axes: "shape (h ! beta1) \<noteq> []"
    and df: "df < 2 ^ 64"
    and vs: "flt (Finite 0)
               (fadd N (fadd N (elt h var1 i) (elt h var2 i)) (fmul N (Finite 2) (elt h cov12 i)))"
    and p: "fmul N (Finite 2) (fsub N (Finite 1)
              (t_cdf N (fabs (fdiv N (fadd N (elt h beta1 i) (elt h beta2 i))
                 (fsqrt N (fadd N (fadd N (elt h var1 i) (elt h var2 i))
                    (fmul N (Finite 2) (elt h cov12 i)))))) df)) = Finite p"
  shows "item (call (compute_combined_pvalue N beta1 beta2 var1 var2 cov12 df) h) i =
           Inr (Finite p)"
  unfolding compute_item[OF ok i axes df] voxel_p_def voxel_abs_t_def Let_def guard_pos[OF vs] p
  by simp

theorem valid_voxel_formula_witness:
  "inputs_ok three_voxels [0, 1, 2, 3, 4] \<and>
   0 < length (data (three_voxels ! 0)) \<and>
   shape (three_voxels ! 0) \<noteq> [] \<and> (1::int) < 2 ^ 64 \<and>
   flt (Finite 0)
     (fadd exact_numerics (fadd exact_numerics (elt three_voxels 2 0) (elt three_voxels 3 0))
        (fmul exact_numerics (Finite 2) (elt three_voxels 4 0))) \<and>
   fmul exact_numerics (Finite 2) (fsub exact_numerics (Finite 1)
     (t_cdf exact_numerics (fabs (fdiv exact_numerics
         (fadd exact_numerics (elt three_voxels 0 0) (elt three_voxels 1 0))
         (fsqrt exact_numerics
            (fadd exact_numerics (fadd exact_numerics (elt three_voxels 2 0) (elt three_voxels 3 0))
               (fmul exact_numerics (Finite 2) (elt three_voxels 4 0)))))) 1)) = Finite (1/2) \<and>
   item (call (compute_combined_pvalue exact_numerics 0 1 2 3 4 1) three_voxels) 0 =
     Inr (Finite (1/2))"
proof -
  have i: "0 < length (data (three_voxels ! 0))" by (simp add: elt_def three_voxels_def arr1_def)
  have df: "(1::int) < 2 ^ 64" by simp
  have vs: "flt (Finite 0)
     (fadd exact_numerics (fadd exact_numerics (elt three_voxels 2 0) (elt three_voxels 3 0))
        (fmul exact_numerics (Finite 2) (elt three_voxels 4 0)))"
    by (simp add: elt_def three_voxels_def arr1_def)
  have p: "fmul exact_numerics (Finite 2) (fsub exact_numerics (Finite 1)
     (t_cdf exact_numerics (fabs (fdiv exact_numerics
         (fadd exact_numerics (elt three_voxels 0 0) (elt three_voxels 1 0))
         (fsqrt exact_numerics
            (fadd exact_numerics (fadd exact_numerics (elt three_voxels 2 0) (elt three_voxels 3 0))
               (fmul exact_numerics (Finite 2) (elt three_voxels 4 0)))))) 1)) = Finite (1/2)"
    by (simp add: elt_def three_voxels_def arr1_def t1_at_one)
  from valid_voxel_formula[OF three_voxels_ok i three_voxels_axes df vs p]
    three_voxels_ok i three_voxels_axes vs p
  show ?thesis by simp
qed


text \<open>
  The claim as stated has no condition on \<open>df\<close>. With \<open>df = 0\<close>, finite inputs
  and a combined variance of 4 at voxel 0, the formula evaluates to NaN and the output
  is 0.
\<close>

theorem valid_voxel_formula_counterexample:
  "inputs_ok three_voxels [0, 1, 2, 3, 4] \<and>
   0 < length (data (three_voxels ! 0)) \<and>
   flt (Finite 0)
     (fadd exact_numerics (fadd exact_numerics (elt three_voxels 2 0) (elt three_voxels 3 0))
        (fmul exact_numerics (Finite 2) (elt three_voxels 4 0))) \<and>
   fmul exact_numerics (Finite 2) (fsub exact_numerics (Finite 1)
     (t_cdf exact_numerics (fabs (fdiv exact_numerics
         (fadd exact_numerics (elt three_voxels 0 0) (elt three_voxels 1 0))
         (fsqrt exact_numerics
            (fadd exact_numerics (fadd exact_numerics (elt three_voxels 2 0) (elt three_voxels 3 0))
               (fmul exact_numerics (Finite 2) (elt three_voxels 4 0)))))) 0)) = NaN \<and>
   item (call (compute_combined_pvalue exact_numerics 0 1 2 3 4 0) three_voxels) 0 =
     Inr (Finite 0)"
proof -
  have i: "0 < length (data (three_voxels ! 0))" by (simp add: stores)
  have df: "(0::int) < 2 ^ 64" by simp
  have "item (call (compute_combined_pvalue exact_numerics 0 1 2 3 4 0) three_voxels) 0 =
     Inr (Finite 0)"
    unfolding compute_item[OF three_voxels_ok i three_voxels_axes df]
    by (simp add: voxel_p_def t_cdf_def)
  then show ?thesis using three_voxels_ok by (simp add: stores t_cdf_def)
qed


text \<open>
  Finite inputs do not make the value a number either: in float64 arithmetic the sum of
  two finite numbers can overflow. When both \<open>beta_sum\<close> and \<open>var_sum\<close> do, the
  t statistic is \<open>inf/inf\<close>, which is NaN, and the output is 0 also for \<open>df = 1\<close>.
\<close>

lemma finite_inputs_overflow:
  "inputs_ok largest_voxel [0, 1, 2, 3, 4] \<and>
   flt (Finite 0)
     (fadd overflowing_numerics
        (fadd overflowing_numerics (elt largest_voxel 2 0) (elt largest_voxel 3 0))
        (fmul overflowing_numerics (Finite 2) (elt largest_voxel 4 0))) \<and>
   fmul overflowing_numerics (Finite 2) (fsub overflowing_numerics (Finite 1)
     (t_cdf overflowing_numerics (fabs (fdiv overflowing_numerics
         (fadd overflowing_numerics (elt largest_voxel 0 0) (elt largest_voxel 1 0))
         (fsqrt overflowing_numerics
            (fadd overflowing_numerics
               (fadd overflowing_numerics (elt largest_voxel 2 0) (elt largest_voxel 3 0))
               (fmul overflowing_numerics (Finite 2) (elt largest_voxel 4 0)))))) 1)) = NaN \<and>
   item (call (compute_combined_pvalue overflowing_numerics 0 1 2 3 4 1) largest_voxel) 0 =
     Inr (Finite 0)"
proof -
  have i: "0 < length (data (largest_voxel ! 0))" by (simp add: largest_voxel_def arr1_def)
  have axes: "shape (largest_voxel ! 0) \<noteq> []" by (simp add: largest_voxel_def arr1_def)
  have e: "elt largest_voxel 0 0 = Finite float64_max" "elt largest_voxel 1 0 = Finite float64_max"
    "elt largest_voxel 2 0 = Finite float64_max" "elt largest_voxel 3 0 = Finite float64_max"
    "elt largest_voxel 4 0 = Finite 0"
    by (simp_all add: largest_voxel_def arr1_def elt_def)
  have z: "fmul overflowing_numerics (Finite 2) (Finite 0) = Finite 0"
    using float64_max_pos by (simp add: overflowing_numerics_def)
  have df: "(1::int) < 2 ^ 64" by simp
  have out: "item (call (compute_combined_pvalue overflowing_numerics 0 1 2 3 4 1) largest_voxel) 0 =
     Inr (Finite 0)"
    unfolding compute_item[OF largest_ok i axes df]
      voxel_p_def voxel_abs_t_def Let_def e overflow_sum z
    by (simp add: guard_nonpos_def t_cdf_def)
  show ?thesis
    unfolding e overflow_sum z using largest_ok out by (simp add: t_cdf_def)
qed





text \<open>
  C3. When the five images load: if any two of the five arrays differ in shape, main
  ends with the \<^verbatim>\<open>ValueError\<close> of line 105, the file system it leaves is the one it
  started with (nothing is written), and the store it leaves holds the five arrays
  loaded and nothing else (the core, which allocates, has not run); if all five shapes
  agree, main does not end with that error.
\<close>

theorem shape_mismatch_aborts:
  assumes files: "fs (beta4 a) = Some (Image i1)" "fs (beta6 a) = Some (Image i2)"
    "fs (var4 a) = Some (Image i3)" "fs (var6 a) = Some (Image i4)" "fs (cov46 a) = Some (Image i5)"
  shows "((\<exists>x \<in> set [i1, i2, i3, i4, i5]. \<exists>y \<in> set [i1, i2, i3, i4, i5].
             shape (img_data x) \<noteq> shape (img_data y)) \<longrightarrow>
          main N L a fs =
            (Inl (ValueError ''Input NIfTI files must have identical dimensions.''),
             \<lparr>heap = [img_data i1, img_data i2, img_data i3, img_data i4, img_data i5],
              files = fs\<rparr>)) \<and>
         ((\<forall>x \<in> set [i1, i2, i3, i4, i5]. \<forall>y \<in> set [i1, i2, i3, i4, i5].
             shape (img_data x) = shape (img_data y)) \<longrightarrow>
          fst (main N L a fs) \<noteq>
            Inl (ValueError ''Input NIfTI files must have identical dimensions.''))"
proof (intro conjI impI)
  assume "\<exists>x \<in> set [i1, i2, i3, i4, i5]. \<exists>y \<in> set [i1, i2, i3, i4, i5].
             shape (img_data x) \<noteq> shape (img_data y)"
  then have "\<not> (\<forall>x \<in> set [i1, i2, i3, i4, i5]. \<forall>y \<in> set [i1, i2, i3, i4, i5].
             shape (img_data x) = shape (img_data y))" by blast
  then have "\<not> (shape (img_data i1) = shape (img_data i2) \<and> shape (img_data i2) = shape (img_data i3) \<and>
             shape (img_data i3) = shape (img_data i4) \<and> shape (img_data i4) = shape (img_data i5))"
    unfolding chain_iff_all_equal[of i1 i2 i3 i4 i5 "\<lambda>x. shape (img_data x)"] .
  then show "main N L a fs =
            (Inl (ValueError ''Input NIfTI files must have identical dimensions.''),
             \<lparr>heap = [img_data i1, img_data i2, img_data i3, img_data i4, img_data i5],
              files = fs\<rparr>)"
    by (rule main_mismatch[OF files])
next
  assume "\<forall>x \<in> set [i1, i2, i3, i4, i5]. \<forall>y \<in> set [i1, i2, i3, i4, i5].
             shape (img_data x) = shape (img_data y)"
  then have "shape (img_data i1) = shape (img_data i2) \<and> shape (img_data i2) = shape (img_data i3) \<and>
             shape (img_data i3) = shape (img_data i4) \<and> shape (img_data i4) = shape (img_data i5)"
    unfolding chain_iff_all_equal[of i1 i2 i3 i4 i5 "\<lambda>x. shape (img_data x)"] .
  from main_same_shape[OF files this, of N L]
  show "fst (main N L a fs) \<noteq>
            Inl (ValueError ''Input NIfTI files must have identical dimensions.'')" by auto
qed

theorem shape_mismatch_aborts_witness:
  "shape (img_data \<lparr>img_data = arr1 [Finite 0, Finite 0], geometry = 0::nat\<rparr>) \<noteq>
     shape (img_data \<lparr>img_data = three_voxels ! 0, geometry = 0::nat\<rparr>) \<and>
   mismatched_files (cov46 example_args) =
     Some (Image \<lparr>img_data = arr1 [Finite 0, Finite 0], geometry = 0\<rparr>) \<and>
   mismatched_files (beta4 example_args) =
     Some (Image \<lparr>img_data = three_voxels ! 0, geometry = 0\<rparr>) \<and>
   main exact_numerics example_nibabel example_args mismatched_files =
     (Inl (ValueError ''Input NIfTI files must have identical dimensions.''),
      \<lparr>heap = [three_voxels ! 0, three_voxels ! 1, three_voxels ! 2, three_voxels ! 3,
               arr1 [Finite 0, Finite 0]],
       files = mismatched_files\<rparr>) \<and>
   fst (main exact_numerics example_nibabel example_args example_files) \<noteq>
     Inl (ValueError ''Input NIfTI files must have identical dimensions.'')"
proof -
  let ?i = "\<lambda>k. \<lparr>img_data = three_voxels ! k, geometry = 0::nat\<rparr>"
  let ?bad = "\<lparr>img_data = arr1 [Finite 0, Finite 0], geometry = 0::nat\<rparr>"
  have ok: "example_files (beta4 example_args) = Some (Image (?i 0))"
    "example_files (beta6 example_args) = Some (Image (?i 1))"
    "example_files (var4 example_args) = Some (Image (?i 2))"
    "example_files (var6 example_args) = Some (Image (?i 3))"
    "example_files (cov46 example_args) = Some (Image (?i 4))"
    by (simp_all add: example_files_def example_args_def)
  have bad: "mismatched_files (beta4 example_args) = Some (Image (?i 0))"
    "mismatched_files (beta6 example_args) = Some (Image (?i 1))"
    "mismatched_files (var4 example_args) = Some (Image (?i 2))"
    "mismatched_files (var6 example_args) = Some (Image (?i 3))"
    "mismatched_files (cov46 example_args) = Some (Image ?bad)"
    by (simp_all add: mismatched_files_def example_files_def example_args_def)
  have d: "shape (img_data ?bad) \<noteq> shape (img_data (?i 0))"
    by (simp add: stores)
  have same: "\<forall>x \<in> set [?i 0, ?i 1, ?i 2, ?i 3, ?i 4]. \<forall>y \<in> set [?i 0, ?i 1, ?i 2, ?i 3, ?i 4].
      shape (img_data x) = shape (img_data y)"
    by (simp add: stores)
  have diff: "\<exists>x \<in> set [?i 0, ?i 1, ?i 2, ?i 3, ?bad]. \<exists>y \<in> set [?i 0, ?i 1, ?i 2, ?i 3, ?bad].
      shape (img_data x) \<noteq> shape (img_data y)"
    by (rule bexI[of _ ?bad], rule bexI[of _ "?i 0"], rule d) simp_all
  from shape_mismatch_aborts[OF bad, of exact_numerics example_nibabel] diff
  have 1: "main exact_numerics example_nibabel example_args mismatched_files =
     (Inl (ValueError ''Input NIfTI files must have identical dimensions.''),
      \<lparr>heap = [img_data (?i 0), img_data (?i 1), img_data (?i 2), img_data (?i 3), img_data ?bad],
       files = mismatched_files\<rparr>)"
    by blast
  from shape_mismatch_aborts[OF ok, of exact_numerics example_nibabel] same
  have 2: "fst (main exact_numerics example_nibabel example_args example_files) \<noteq>
     Inl (ValueError ''Input NIfTI files must have identical dimensions.'')"
    by blast
  from d 1 2 bad(1,5) show ?thesis by simp
qed






text \<open>
  C5. Negation symmetry: negating both coefficient maps, with the variance and
  covariance maps unchanged, leaves the outcome of the call unchanged, the array
  returned or the exception raised (rounding commutes with negation).
\<close>

theorem negation_symmetry:
  assumes odd: "rnd_odd N"
    and ok: "inputs_ok h [beta1, beta2, var1, var2, cov12]"
    and ok': "inputs_ok g [nbeta1, nbeta2, var1', var2', cov12']"
    and neg: "negated (h ! beta1) (g ! nbeta1)" "negated (h ! beta2) (g ! nbeta2)"
    and same: "g ! var1' = h ! var1" "g ! var2' = h ! var2" "g ! cov12' = h ! cov12"
  shows "call (compute_combined_pvalue N nbeta1 nbeta2 var1' var2' cov12' df) g =
         call (compute_combined_pvalue N beta1 beta2 var1 var2 cov12 df) h"
proof -
  have len: "length (data (h ! beta2)) = length (data (h ! beta1))"
    by (rule inputs_okD[OF ok])
  have sh: "shape (g ! nbeta1) = shape (h ! beta1)"
    and n: "length (data (g ! nbeta1)) = length (data (h ! beta1))"
    using neg(1) by (simp_all add: negated_def)
  have t: "voxel_abs_t N (elt g nbeta1 i) (elt g nbeta2 i) (elt g var1' i) (elt g var2' i)
             (elt g cov12' i)
      = voxel_abs_t N (elt h beta1 i) (elt h beta2 i) (elt h var1 i) (elt h var2 i) (elt h cov12 i)"
    if "i < length (data (h ! beta1))" for i
    using that neg same len by (simp add: elt_def negated_def voxel_abs_t_fneg[OF odd])
  have p: "voxel_p N df (elt g nbeta1 i) (elt g nbeta2 i) (elt g var1' i) (elt g var2' i)
             (elt g cov12' i)
      = voxel_p N df (elt h beta1 i) (elt h beta2 i) (elt h var1 i) (elt h var2 i) (elt h cov12 i)"
    if "i < length (data (h ! beta1))" for i
    using t[OF that] by (simp add: voxel_p_def)
  have ex: "(\<exists>i<length (data (h ! beta1)).
        is_finite (voxel_abs_t N (elt g nbeta1 i) (elt g nbeta2 i) (elt g var1' i)
                     (elt g var2' i) (elt g cov12' i))) =
      (\<exists>i<length (data (h ! beta1)).
        is_finite (voxel_abs_t N (elt h beta1 i) (elt h beta2 i) (elt h var1 i)
                     (elt h var2 i) (elt h cov12 i)))"
    using t by auto
  have dt: "map (\<lambda>i. voxel_p N df (elt g nbeta1 i) (elt g nbeta2 i) (elt g var1' i)
                      (elt g var2' i) (elt g cov12' i)) [0..<length (data (h ! beta1))] =
      map (\<lambda>i. voxel_p N df (elt h beta1 i) (elt h beta2 i) (elt h var1 i)
                      (elt h var2 i) (elt h cov12 i)) [0..<length (data (h ! beta1))]"
    using p by simp
  show ?thesis
    unfolding call_voxels[OF ok] call_voxels[OF ok'] sh n ex dt ..
qed

theorem negation_symmetry_witness:
  "rnd_odd exact_numerics \<and>
   inputs_ok three_voxels [0, 1, 2, 3, 4] \<and> inputs_ok three_voxels_negated [0, 1, 2, 3, 4] \<and>
   negated (three_voxels ! 0) (three_voxels_negated ! 0) \<and>
   negated (three_voxels ! 1) (three_voxels_negated ! 1) \<and>
   three_voxels_negated ! 2 = three_voxels ! 2 \<and>
   three_voxels_negated ! 3 = three_voxels ! 3 \<and>
   three_voxels_negated ! 4 = three_voxels ! 4 \<and>
   call (compute_combined_pvalue exact_numerics 0 1 2 3 4 1) three_voxels_negated =
   call (compute_combined_pvalue exact_numerics 0 1 2 3 4 1) three_voxels"
proof -
  have n: "negated (three_voxels ! 0) (three_voxels_negated ! 0)"
    "negated (three_voxels ! 1) (three_voxels_negated ! 1)"
    by (simp_all add: negated_def stores)
  have e: "three_voxels_negated ! 2 = three_voxels ! 2"
    "three_voxels_negated ! 3 = three_voxels ! 3"
    "three_voxels_negated ! 4 = three_voxels ! 4"
    by (simp_all add: stores)
  from negation_symmetry[OF exact_props(3) three_voxels_ok negated_ok n e, of 1]
    exact_props(3) three_voxels_ok negated_ok n e
  show ?thesis by simp
qed






text \<open>
  C7 (as amended). On arrays with at least one axis and for \<open>1 \<le> df < 2^64\<close>: at
  every voxel index \<open>i\<close> where \<open>beta1[i] + beta2[i]\<close>, as the program computes it,
  is 0 and the combined variance \<open>var1[i] + var2[i] + 2*cov12[i]\<close>, as the program
  computes it, is \<open>> 0\<close>, the output is exactly 1, given that \<open>stdtr\<close> is 1/2 at 0.
\<close>

theorem zero_beta_sum_gives_one:
  assumes "0 < df" and "df < 2 ^ 64" and "stdtr N df 0 = 1/2"
    and "rnd_exact N 0" and "rnd_exact N (1/2)" and "rnd_exact N 1" and "rnd_sqrt_pos N"
    and ok: "inputs_ok h [beta1, beta2, var1, var2, cov12]"
    and i: "i < length (data (h ! beta1))"
    and axes: "shape (h ! beta1) \<noteq> []"
    and bs: "fadd N (elt h beta1 i) (elt h beta2 i) = Finite 0"
    and vs: "flt (Finite 0)
               (fadd N (fadd N (elt h var1 i) (elt h var2 i)) (fmul N (Finite 2) (elt h cov12 i)))"
  shows "item (call (compute_combined_pvalue N beta1 beta2 var1 var2 cov12 df) h) i =
           Inr (Finite 1)"
proof -
  have t: "fdiv N (Finite 0) (fsqrt N
      (fadd N (fadd N (elt h var1 i) (elt h var2 i)) (fmul N (Finite 2) (elt h cov12 i)))) = Finite 0"
    by (rule fdiv_zero_pos[OF assms(4) fsqrt_pos[OF assms(7) vs]])
  have c: "t_cdf N (Finite 0) df = Finite (1/2)"
    using assms(1,3) by (simp add: t_cdf_def)
  have p: "fmul N (Finite 2) (fsub N (Finite 1) (Finite (1/2))) = Finite 1"
    using assms(5,6) by (simp add: rnd_exact_def)
  show ?thesis
    unfolding compute_item[OF ok i axes assms(2)] voxel_p_def voxel_abs_t_def Let_def
      guard_pos[OF vs] bs t
    by (simp only: fabs.simps abs_zero c p nan_to_num1.simps)
qed

theorem zero_beta_sum_gives_one_witness:
  "(0::int) < 1 \<and> (1::int) < 2 ^ 64 \<and> stdtr exact_numerics 1 0 = 1/2 \<and>
   rnd_exact exact_numerics 0 \<and> rnd_exact exact_numerics (1/2) \<and> rnd_exact exact_numerics 1 \<and>
   rnd_sqrt_pos exact_numerics \<and>
   inputs_ok three_voxels [0, 1, 2, 3, 4] \<and> 2 < length (data (three_voxels ! 0)) \<and>
   shape (three_voxels ! 0) \<noteq> [] \<and>
   fadd exact_numerics (elt three_voxels 0 2) (elt three_voxels 1 2) = Finite 0 \<and>
   flt (Finite 0)
     (fadd exact_numerics (fadd exact_numerics (elt three_voxels 2 2) (elt three_voxels 3 2))
        (fmul exact_numerics (Finite 2) (elt three_voxels 4 2))) \<and>
   item (call (compute_combined_pvalue exact_numerics 0 1 2 3 4 1) three_voxels) 2 =
     Inr (Finite 1)"
proof -
  have df: "(0::int) < 1" by simp
  have df': "(1::int) < 2 ^ 64" by simp
  have c0: "stdtr exact_numerics 1 0 = 1/2" by simp
  have i: "2 < length (data (three_voxels ! 0))" by (simp add: stores)
  have bs: "fadd exact_numerics (elt three_voxels 0 2) (elt three_voxels 1 2) = Finite 0"
    by (simp add: stores)
  have vs: "flt (Finite 0)
     (fadd exact_numerics (fadd exact_numerics (elt three_voxels 2 2) (elt three_voxels 3 2))
        (fmul exact_numerics (Finite 2) (elt three_voxels 4 2)))"
    by (simp add: stores)
  from zero_beta_sum_gives_one[OF df df' c0 exact_props(1) exact_props(1) exact_props(1)
      exact_props(5) three_voxels_ok i three_voxels_axes bs vs]
    df c0 exact_props(1)[of 0] exact_props(1)[of "1/2"] exact_props(1)[of 1] exact_props(5)
    three_voxels_ok i three_voxels_axes bs vs
  show ?thesis by simp
qed


text \<open>
  The claim as stated has no condition on \<open>df\<close>. With \<open>df = 0\<close>, at voxel 2 of
  \<open>three_voxels\<close> the coefficients sum to zero and the combined variance is 4, and
  the output is 0, not 1.
\<close>

theorem zero_beta_sum_gives_one_counterexample:
  "inputs_ok three_voxels [0, 1, 2, 3, 4] \<and> 2 < length (data (three_voxels ! 0)) \<and>
   fadd exact_numerics (elt three_voxels 0 2) (elt three_voxels 1 2) = Finite 0 \<and>
   flt (Finite 0)
     (fadd exact_numerics (fadd exact_numerics (elt three_voxels 2 2) (elt three_voxels 3 2))
        (fmul exact_numerics (Finite 2) (elt three_voxels 4 2))) \<and>
   item (call (compute_combined_pvalue exact_numerics 0 1 2 3 4 0) three_voxels) 2 =
     Inr (Finite 0) \<and>
   item (call (compute_combined_pvalue exact_numerics 0 1 2 3 4 0) three_voxels) 2 \<noteq>
     Inr (Finite 1)"
proof -
  have i: "2 < length (data (three_voxels ! 0))" by (simp add: stores)
  have df: "(0::int) < 2 ^ 64" by simp
  have "item (call (compute_combined_pvalue exact_numerics 0 1 2 3 4 0) three_voxels) 2 =
     Inr (Finite 0)"
    unfolding compute_item[OF three_voxels_ok i three_voxels_axes df]
    by (simp add: voxel_p_def t_cdf_def)
  then show ?thesis using three_voxels_ok by (simp add: stores)
qed


text \<open>
  C8 (as amended). Voxel independence, for \<open>df < 2^64\<close>: for two runs on inputs of
  one shape with the same \<open>df\<close>, if the five input values at index \<open>i\<close> agree, the
  outcomes at \<open>i\<close> agree, whatever the other voxels hold.
\<close>

theorem voxel_independence:
  assumes ok: "inputs_ok h [beta1, beta2, var1, var2, cov12]"
    and ok': "inputs_ok g [beta1', beta2', var1', var2', cov12']"
    and sh: "shape (g ! beta1') = shape (h ! beta1)"
    and df: "df < 2 ^ 64"
    and i: "i < length (data (h ! beta1))"
    and eq: "elt g beta1' i = elt h beta1 i" "elt g beta2' i = elt h beta2 i"
        "elt g var1' i = elt h var1 i" "elt g var2' i = elt h var2 i"
        "elt g cov12' i = elt h cov12 i"
  shows "item (call (compute_combined_pvalue N beta1' beta2' var1' var2' cov12' df) g) i =
         item (call (compute_combined_pvalue N beta1 beta2 var1 var2 cov12 df) h) i"
proof -
  have n: "length (data (g ! beta1')) = length (data (h ! beta1))"
    using inputs_ok_size[OF ok] inputs_ok_size[OF ok'] sh by simp
  show ?thesis
    unfolding call_voxels[OF ok] call_voxels[OF ok'] sh n
    using df i eq by (simp add: item_def)
qed

theorem voxel_independence_witness:
  "inputs_ok three_voxels [0, 1, 2, 3, 4] \<and> inputs_ok three_voxels_other [0, 1, 2, 3, 4] \<and>
   shape (three_voxels_other ! 0) = shape (three_voxels ! 0) \<and>
   (1::int) < 2 ^ 64 \<and>
   0 < length (data (three_voxels ! 0)) \<and>
   elt three_voxels_other 0 0 = elt three_voxels 0 0 \<and>
   elt three_voxels_other 1 0 = elt three_voxels 1 0 \<and>
   elt three_voxels_other 2 0 = elt three_voxels 2 0 \<and>
   elt three_voxels_other 3 0 = elt three_voxels 3 0 \<and>
   elt three_voxels_other 4 0 = elt three_voxels 4 0 \<and>
   elt three_voxels_other 0 1 \<noteq> elt three_voxels 0 1 \<and>
   item (call (compute_combined_pvalue exact_numerics 0 1 2 3 4 1) three_voxels_other) 0 =
   item (call (compute_combined_pvalue exact_numerics 0 1 2 3 4 1) three_voxels) 0"
proof -
  have s: "shape (three_voxels_other ! 0) = shape (three_voxels ! 0)" by (simp add: stores)
  have df: "(1::int) < 2 ^ 64" by simp
  have i: "0 < length (data (three_voxels ! 0))" by (simp add: stores)
  have e: "elt three_voxels_other 0 0 = elt three_voxels 0 0"
    "elt three_voxels_other 1 0 = elt three_voxels 1 0"
    "elt three_voxels_other 2 0 = elt three_voxels 2 0"
    "elt three_voxels_other 3 0 = elt three_voxels 3 0"
    "elt three_voxels_other 4 0 = elt three_voxels 4 0"
    by (simp_all add: stores)
  have d: "elt three_voxels_other 0 1 \<noteq> elt three_voxels 0 1" by (simp add: stores)
  from voxel_independence[OF three_voxels_ok other_ok s df i e, of exact_numerics]
    three_voxels_ok other_ok s i e d
  show ?thesis by simp
qed

text \<open>
  The claim as stated is for every \<open>df\<close>. With \<open>df = 2^64\<close>, \<open>three_voxels\<close> and
  \<open>degenerate_voxels\<close> have one shape and hold the same five values at voxel 1. On
  \<open>degenerate_voxels\<close> the call returns, with 0 at voxel 1; on \<open>three_voxels\<close> it
  raises, because voxel 0 has a finite t statistic. What the caller gets at voxel 1
  depends on voxel 0.
\<close>

theorem voxel_independence_counterexample:
  "inputs_ok three_voxels [0, 1, 2, 3, 4] \<and> inputs_ok degenerate_voxels [0, 1, 2, 3, 4] \<and>
   shape (degenerate_voxels ! 0) = shape (three_voxels ! 0) \<and>
   1 < length (data (three_voxels ! 0)) \<and>
   elt degenerate_voxels 0 1 = elt three_voxels 0 1 \<and>
   elt degenerate_voxels 1 1 = elt three_voxels 1 1 \<and>
   elt degenerate_voxels 2 1 = elt three_voxels 2 1 \<and>
   elt degenerate_voxels 3 1 = elt three_voxels 3 1 \<and>
   elt degenerate_voxels 4 1 = elt three_voxels 4 1 \<and>
   item (call (compute_combined_pvalue exact_numerics 0 1 2 3 4 (2 ^ 64)) degenerate_voxels) 1 =
     Inr (Finite 0) \<and>
   item (call (compute_combined_pvalue exact_numerics 0 1 2 3 4 (2 ^ 64)) three_voxels) 1 =
     Inl (TypeError ''ufunc stdtr not supported for the input types'')"
  unfolding three_voxels_large_df degenerate_voxels_large_df
  using three_voxels_ok degenerate_ok by (simp add: item_def stores)


text \<open>
  C9. \<open>compute_combined_pvalue\<close> has no side effect on its arguments: whatever the
  store, the references passed (aliased or not), the shapes and \<open>df\<close>, and whether
  the call returns or raises, every array that was in the store before the call is
  unchanged after it, the five inputs among them. The masked assignment of line 71
  writes to \<open>var_sum\<close>, an array the call itself allocated.
\<close>

theorem inputs_unchanged:
  "take (length h) (snd (compute_combined_pvalue N beta1 beta2 var1 var2 cov12 df h)) = h"
proof -
  obtain r h' where c: "compute_combined_pvalue N beta1 beta2 var1 var2 cov12 df h = (r, h')"
    by (cases "compute_combined_pvalue N beta1 beta2 var1 var2 cov12 df h")
  from preservesD[OF preserves_compute _ c, of "length h"] c show ?thesis by simp
qed

text \<open>
  C10 (as amended). The division of line 75 never divides by zero: at every voxel,
  \<open>se_sum\<close> is NaN or strictly positive. \<open>t_stat\<close> is NaN exactly when
  \<open>beta_sum\<close> or \<open>se_sum\<close> is NaN, or when both are infinite. (On arrays without
  axes the run ends at line 71, with the three arrays of line 68 allocated: there is no
  \<open>se_sum\<close> and no division.)
\<close>

theorem standard_error_never_zero:
  assumes sq: "rnd_sqrt_pos N" and nn: "rnd_not_nan N"
    and ok: "inputs_ok h [beta1, beta2, var1, var2, cov12]"
    and i: "i < length (data (h ! beta1))"
  shows "let R = compute_combined_pvalue N beta1 beta2 var1 var2 cov12 df h;
             H = snd R;
             se_sum = elt H (length h + 3) i;
             beta_sum = elt H (length h + 4) i;
             t_stat = elt H (length h + 5) i
         in if shape (h ! beta1) = []
            then fst R = Inl (TypeError ''numpy.float64 object does not support item assignment'') \<and>
                 length H = length h + 3
            else t_stat = fdiv N beta_sum se_sum \<and>
                 (se_sum = NaN \<or> flt (Finite 0) se_sum) \<and> se_sum \<noteq> Finite 0 \<and>
                 (t_stat = NaN) =
                   (beta_sum = NaN \<or> se_sum = NaN \<or>
                    ((beta_sum = PInf \<or> beta_sum = NInf) \<and> se_sum = PInf))"
proof (cases "shape (h ! beta1) = []")
  case True
  from compute_no_axes[OF ok True, of N df] True show ?thesis by (simp add: Let_def)
next
  case False
  let ?H = "snd (compute_combined_pvalue N beta1 beta2 var1 var2 cov12 df h)"
  note cells = compute_cells[OF ok i False, of N df]
  have se: "elt ?H (length h + 3) i = NaN \<or> flt (Finite 0) (elt ?H (length h + 3) i)"
    unfolding cells(2) cells(1) by (rule se_sum_cases[OF sq])
  then have nz: "elt ?H (length h + 3) i \<noteq> Finite 0" by auto
  have t: "elt ?H (length h + 5) i = fdiv N (elt ?H (length h + 4) i) (elt ?H (length h + 3) i)"
    by (rule cells(4))
  have iff: "(elt ?H (length h + 5) i = NaN) =
     (elt ?H (length h + 4) i = NaN \<or> elt ?H (length h + 3) i = NaN \<or>
      ((elt ?H (length h + 4) i = PInf \<or> elt ?H (length h + 4) i = NInf) \<and> elt ?H (length h + 3) i = PInf))"
    unfolding t by (rule fdiv_nan_iff[OF nn se])
  from se nz t iff False show ?thesis unfolding Let_def by simp
qed

theorem standard_error_never_zero_witness:
  "rnd_sqrt_pos exact_numerics \<and> rnd_not_nan exact_numerics \<and>
   inputs_ok three_voxels [0, 1, 2, 3, 4] \<and> 1 < length (data (three_voxels ! 0)) \<and>
   shape (three_voxels ! 0) \<noteq> [] \<and>
   (let H = snd (compute_combined_pvalue exact_numerics 0 1 2 3 4 1 three_voxels);
        se_sum = elt H (length three_voxels + 3) 1;
        beta_sum = elt H (length three_voxels + 4) 1;
        t_stat = elt H (length three_voxels + 5) 1
    in t_stat = fdiv exact_numerics beta_sum se_sum \<and>
       (se_sum = NaN \<or> flt (Finite 0) se_sum) \<and> se_sum \<noteq> Finite 0 \<and>
       ((t_stat = NaN) \<longleftrightarrow>
          (beta_sum = NaN \<or> se_sum = NaN \<or>
           ((beta_sum = PInf \<or> beta_sum = NInf) \<and> se_sum = PInf))))"
proof -
  have i: "1 < length (data (three_voxels ! 0))" by (simp add: stores)
  note run = standard_error_never_zero[OF exact_props(5) exact_props(6) three_voxels_ok i, of 1,
      unfolded Let_def if_not_P[OF three_voxels_axes]]
  from run exact_props(5) exact_props(6) three_voxels_ok i three_voxels_axes
  show ?thesis unfolding Let_def by blast
qed


text \<open>
  The claim as stated lets \<open>t_stat\<close> be NaN only through a NaN operand. With an
  infinite coefficient and an infinite variance at a voxel, \<open>se_sum\<close> and
  \<open>beta_sum\<close> are both \<open>+inf\<close>, neither is NaN, and \<open>t_stat\<close> is NaN.
\<close>

theorem standard_error_never_zero_counterexample:
  "inputs_ok infinite_voxel [0, 1, 2, 3, 4] \<and>
   elt (snd (compute_combined_pvalue exact_numerics 0 1 2 3 4 1 infinite_voxel)) 8 0 = PInf \<and>
   elt (snd (compute_combined_pvalue exact_numerics 0 1 2 3 4 1 infinite_voxel)) 9 0 = PInf \<and>
   elt (snd (compute_combined_pvalue exact_numerics 0 1 2 3 4 1 infinite_voxel)) 10 0 = NaN \<and>
   item (call (compute_combined_pvalue exact_numerics 0 1 2 3 4 1) infinite_voxel) 0 = Inr (Finite 0)"
proof -
  have i: "0 < length (data (infinite_voxel ! 0))" by (simp add: stores)
  have axes: "shape (infinite_voxel ! 0) \<noteq> []" by (simp add: stores)
  have n: "length infinite_voxel + 2 = 7" "length infinite_voxel + 3 = 8"
    "length infinite_voxel + 4 = 9" "length infinite_voxel + 5 = 10"
    by (simp_all add: infinite_voxel_def)
  note c = compute_cells[OF infinite_ok i axes, of exact_numerics 1, unfolded n]
  have vs: "elt (snd (compute_combined_pvalue exact_numerics 0 1 2 3 4 1 infinite_voxel)) 7 0 = PInf"
    unfolding c(1) by (simp add: stores guard_nonpos_def)
  have se: "elt (snd (compute_combined_pvalue exact_numerics 0 1 2 3 4 1 infinite_voxel)) 8 0 = PInf"
    unfolding c(2) vs by simp
  have bs: "elt (snd (compute_combined_pvalue exact_numerics 0 1 2 3 4 1 infinite_voxel)) 9 0 = PInf"
    unfolding c(3) by (simp add: stores)
  have t: "elt (snd (compute_combined_pvalue exact_numerics 0 1 2 3 4 1 infinite_voxel)) 10 0 = NaN"
    unfolding c(4) se bs by simp
  have df: "(1::int) < 2 ^ 64" by simp
  have out: "item (call (compute_combined_pvalue exact_numerics 0 1 2 3 4 1) infinite_voxel) 0 =
      Inr (Finite 0)"
    unfolding compute_item[OF infinite_ok i axes df]
    by (simp add: voxel_p_def voxel_abs_t_def stores guard_nonpos_def t_cdf_def)
  from infinite_ok se bs t out show ?thesis by blast
qed

end
